theory Spec2Isabelle
  imports Complex_Main
begin

section \<open>Amortization solver and net-worth simulators of app.py\<close>

text \<open>
  The embedding follows \<^verbatim>\<open>src/app.py\<close>. Python's \<^verbatim>\<open>int\<close> is \<open>int\<close>, an absent
  argument (\<^verbatim>\<open>None\<close>) is \<open>None\<close>, and every \<^verbatim>\<open>raise\<close> is a value of \<open>error\<close>.
  Python's floats are the reals here: the values are those of exact arithmetic, and
  rounding is not modelled. Where a float operation decides whether the program raises
  (the power \<^verbatim>\<open>**\<close> of the simulators), the operation is a parameter that may fail.
\<close>

subsection \<open>Errors and results\<close>

datatype error =
    ExactlyOneError        \<comment> \<open>ValueError: Provide exactly one of (monthly_payment or loan_term).\<close>
  | PaymentTooLow          \<comment> \<open>ValueError: Monthly payment too low to cover interest.\<close>
  | ZeroDivisionError      \<comment> \<open>Python's division by zero\<close>
  | UnboundLocalError      \<comment> \<open>a local variable read before any assignment\<close>
  | OverflowError          \<comment> \<open>a float power out of the range of floats\<close>

text \<open>The dictionary that \<^verbatim>\<open>calculate_amortization\<close> returns, one field per key.\<close>

record amortization =
  monthly_payment :: real
  total_interest_paid :: real
  total_months :: int
  initial_tilgung_rate :: real

text \<open>Python's true division raises on a zero divisor.\<close>

definition py_div :: "real \<Rightarrow> real \<Rightarrow> error + real" where
  "py_div a b = (if b = 0 then Inl ZeroDivisionError else Inr (a / b))"

subsection \<open>calculate\_amortization\<close>

text \<open>
  The \<^verbatim>\<open>while remaining_balance > 0\<close> loop of the branch that knows the payment
  (lines 35 to 45). \<open>months\<close> is the counter on entry of an iteration; the loop leaves
  through the failed loop condition, through the \<^verbatim>\<open>raise\<close>, or through the
  \<^verbatim>\<open>break\<close> once the incremented counter is above \<^verbatim>\<open>1000*12\<close>.
\<close>

function deplete :: "real \<Rightarrow> real \<Rightarrow> real \<Rightarrow> nat \<Rightarrow> error + nat" where
  "deplete payment monthly_interest_rate remaining_balance months =
     (if remaining_balance > 0 then
        (let months' = months + 1;
             interest = remaining_balance * monthly_interest_rate;
             principal = payment - interest
         in if principal \<le> 0 then Inl PaymentTooLow
            else (let remaining_balance' = remaining_balance - principal
                  in if months' > 1000 * 12 then Inr months'
                     else deplete payment monthly_interest_rate remaining_balance' months'))
      else Inr months)"
  by pat_completeness auto
termination
  by (relation "measure (\<lambda>(p, r, b, m). 12001 - m)") auto

declare deplete.simps [simp del]

text \<open>
  One iteration of the \<^verbatim>\<open>for m in range(1, total_months + 1)\<close> loop (lines 56 to
  62) on the pair (remaining balance, total interest paid); the body does not read \<open>m\<close>.
\<close>

definition interest_step :: "real \<Rightarrow> real \<Rightarrow> int \<Rightarrow> real \<times> real \<Rightarrow> real \<times> real" where
  "interest_step payment monthly_interest_rate m =
     (\<lambda>(remaining_balance, total_interest_paid).
        let interest = remaining_balance * monthly_interest_rate;
            principal = payment - interest;
            total_interest_paid' = total_interest_paid + interest;
            remaining_balance' = remaining_balance - principal
        in (if remaining_balance' < 0 then 0 else remaining_balance', total_interest_paid'))"

definition recalculate_interest :: "real \<Rightarrow> real \<Rightarrow> real \<Rightarrow> int \<Rightarrow> real" where
  "recalculate_interest loan_amount payment monthly_interest_rate total_months' =
     snd (fold (interest_step payment monthly_interest_rate) [1..total_months'] (loan_amount, 0))"

text \<open>
  The first part of \<^verbatim>\<open>calculate_amortization\<close> (lines 24 to 51): the payment and
  the number of months, or the error raised. \<open>payment\<close> and \<open>term\<close> are the optional
  arguments \<^verbatim>\<open>monthly_payment\<close> and \<^verbatim>\<open>loan_term\<close>. The assignment of lines 50 and 51
  (\<^verbatim>\<open>if loan_term is None: total_months = months\<close>) repeats line 46 and changes nothing.
\<close>

definition solve_payment_and_months ::
  "real \<Rightarrow> real \<Rightarrow> real option \<Rightarrow> int option \<Rightarrow> error + (real \<times> int)" where
  "solve_payment_and_months loan_amount annual_interest_rate payment term =
     (let monthly_interest_rate = annual_interest_rate / 12 in
      case (payment, term) of
        (None, Some loan_term) \<Rightarrow>
          (let total_months' = loan_term * 12 in
           case (if monthly_interest_rate > 0
                 then py_div (monthly_interest_rate * loan_amount)
                        (1 - (1 + monthly_interest_rate) powi (- total_months'))
                 else py_div loan_amount (of_int total_months')) of
             Inl e \<Rightarrow> Inl e
           | Inr p \<Rightarrow> Inr (p, total_months'))
      | (Some p, None) \<Rightarrow>
          (case deplete p monthly_interest_rate loan_amount 0 of
             Inl e \<Rightarrow> Inl e
           | Inr months \<Rightarrow> Inr (p, int months))
      | _ \<Rightarrow> Inl ExactlyOneError)"

text \<open>The whole function: the second part (lines 53 to 72) walks the schedule again.\<close>

definition calculate_amortization ::
  "real \<Rightarrow> real \<Rightarrow> real option \<Rightarrow> int option \<Rightarrow> error + amortization" where
  "calculate_amortization loan_amount annual_interest_rate payment term =
     (let monthly_interest_rate = annual_interest_rate / 12 in
      case solve_payment_and_months loan_amount annual_interest_rate payment term of
        Inl e \<Rightarrow> Inl e
      | Inr (p, total_months') \<Rightarrow>
          (let total_interest = recalculate_interest loan_amount p monthly_interest_rate total_months';
               principal_first_month = p - loan_amount * monthly_interest_rate
           in case py_div (principal_first_month * 12) loan_amount of
                Inl e \<Rightarrow> Inl e
              | Inr rate \<Rightarrow>
                  Inr \<lparr>monthly_payment = p, total_interest_paid = total_interest,
                       total_months = total_months', initial_tilgung_rate = rate\<rparr>))"

subsection \<open>The three simulators\<close>

text \<open>
  \<^verbatim>\<open>numpy_financial\<close> is not part of the repository: its two functions are parameters
  of the model, \<open>pmt rate nper pv\<close> and \<open>fv rate nper pmt pv\<close>, and every statement below
  holds whatever they compute. The decimal constants \<^verbatim>\<open>0.02\<close> and \<^verbatim>\<open>0.01\<close> are
  \<open>2/100\<close> and \<open>1/100\<close>.

  Each simulator is a loop \<^verbatim>\<open>for month in range(months)\<close> that appends to the two
  lists and updates the invested capital. The definitions \<open>_loop\<close> are the statements
  before the loop and the loop itself, run for a given number of iterations; they return
  the lists together with the loop's variables, so that the pools can be named. The
  simulator runs its loop for \<^verbatim>\<open>months = loan_term * 12\<close> iterations.

  In these loops \<^verbatim>\<open>**\<close> is the power of the reals, which has a value for every
  argument: they are the loops of a run in which no power raises. The simulators
  themselves, with the power that can raise, follow in the next subsection.
\<close>

text \<open>
  Model 1 (lines 75 to 111). The last component of the state is \<^verbatim>\<open>monthly_savings\<close>,
  which has no value before the first iteration: line 110 reads it after the loop, and
  fails when the loop has not run.
\<close>

definition buying_vs_renting_loop ::
  "(real \<Rightarrow> int \<Rightarrow> real \<Rightarrow> real) \<Rightarrow> (real \<Rightarrow> int \<Rightarrow> real \<Rightarrow> real \<Rightarrow> real) \<Rightarrow>
   real \<Rightarrow> real \<Rightarrow> real \<Rightarrow> real \<Rightarrow> real \<Rightarrow> real \<Rightarrow> real \<Rightarrow> real \<Rightarrow> real \<Rightarrow> real \<Rightarrow> real \<Rightarrow>
   int \<Rightarrow> int \<Rightarrow> real list \<times> real list \<times> real \<times> real option" where
  "buying_vs_renting_loop pmt fv purchase_price down_payment refurbish nebenkost_rate maintenance_rate
       property_taxes initial_rent loan_interest_rate property_appreciation_rate
       rent_inflation_rate investment_return_rate loan_term iterations =
     (let inital_payment = purchase_price * nebenkost_rate + refurbish;
          loan_amount = purchase_price - down_payment;
          monthly_loan_interest_rate = loan_interest_rate / 12;
          monthly_payment = pmt monthly_loan_interest_rate (loan_term * 12) (- loan_amount)
      in fold
           (\<lambda>month (buy_net_worth, rent_net_worth, invested_capital, last_savings).
              let monthly_property_value =
                    purchase_price * (1 + property_appreciation_rate / 12) powi month;
                  monthly_maintenance = (purchase_price * maintenance_rate) / 12;
                  monthly_taxes = property_taxes / 12;
                  monthly_buying_cost = monthly_payment + monthly_maintenance + monthly_taxes;
                  monthly_rent = initial_rent * (1 + rent_inflation_rate / 12) powi month;
                  monthly_savings = monthly_buying_cost - monthly_rent;
                  invested_capital = invested_capital + monthly_savings;
                  monthly_investment_return = invested_capital * (investment_return_rate / 12);
                  invested_capital = invested_capital + monthly_investment_return;
                  rent_net_worth = rent_net_worth @ [invested_capital];
                  outstanding_balance =
                    fv monthly_loan_interest_rate (month + 1) monthly_payment (- loan_amount);
                  equity = monthly_property_value - outstanding_balance;
                  buy_cumulative_cash_flow = equity - inital_payment;
                  buy_net_worth = buy_net_worth @ [buy_cumulative_cash_flow]
              in (buy_net_worth, rent_net_worth, invested_capital, Some monthly_savings))
           [0..iterations - 1] ([], [], down_payment, None))"

text \<open>
  Model 2 (lines 114 to 154): a quarter of the down payment in the ETF pool. The variable
  \<^verbatim>\<open>invested_capital_total\<close> is written in every iteration and read only to be appended
  in the same iteration, so it is local to the loop body here.
\<close>

definition buying_vs_renting2_loop ::
  "(real \<Rightarrow> int \<Rightarrow> real \<Rightarrow> real) \<Rightarrow> (real \<Rightarrow> int \<Rightarrow> real \<Rightarrow> real \<Rightarrow> real) \<Rightarrow>
   real \<Rightarrow> real \<Rightarrow> real \<Rightarrow> real \<Rightarrow> real \<Rightarrow> real \<Rightarrow> real \<Rightarrow> real \<Rightarrow> real \<Rightarrow> real \<Rightarrow> real \<Rightarrow>
   int \<Rightarrow> int \<Rightarrow> real list \<times> real list \<times> real \<times> real" where
  "buying_vs_renting2_loop pmt fv purchase_price down_payment refurbish nebenkost_rate maintenance_rate
       property_taxes initial_rent loan_interest_rate property_appreciation_rate
       rent_inflation_rate investment_return_rate loan_term iterations =
     (let inital_payment = purchase_price * nebenkost_rate + refurbish;
          loan_amount = purchase_price - down_payment;
          monthly_loan_interest_rate = loan_interest_rate / 12;
          monthly_payment = pmt monthly_loan_interest_rate (loan_term * 12) (- loan_amount);
          invested_capital_total = down_payment;
          invested_capital_ETF = invested_capital_total * 1 / 4;
          invested_capital_savings = invested_capital_total * 3 / 4
      in fold
           (\<lambda>month (buy_net_worth, rent_net_worth, invested_capital_ETF, invested_capital_savings).
              let monthly_property_value =
                    purchase_price * (1 + property_appreciation_rate / 12) powi month;
                  monthly_maintenance = (purchase_price * maintenance_rate) / 12;
                  monthly_taxes = property_taxes / 12;
                  monthly_buying_cost = monthly_payment + monthly_maintenance + monthly_taxes;
                  monthly_rent = initial_rent * (1 + rent_inflation_rate / 12) powi month;
                  monthly_savings = monthly_buying_cost - monthly_rent;
                  invested_capital_ETF = invested_capital_ETF + monthly_savings;
                  monthly_investment_return1 = invested_capital_ETF * (investment_return_rate / 12);
                  monthly_investment_return2 =
                    invested_capital_savings * (max (loan_interest_rate - 2 / 100) 0 / 12);
                  invested_capital_ETF = invested_capital_ETF + monthly_investment_return1;
                  invested_capital_savings = invested_capital_savings + monthly_investment_return2;
                  invested_capital_total = invested_capital_ETF + invested_capital_savings;
                  rent_net_worth = rent_net_worth @ [invested_capital_total];
                  outstanding_balance =
                    fv monthly_loan_interest_rate (month + 1) monthly_payment (- loan_amount);
                  equity = monthly_property_value - outstanding_balance;
                  buy_cumulative_cash_flow = equity - inital_payment;
                  buy_net_worth = buy_net_worth @ [buy_cumulative_cash_flow]
              in (buy_net_worth, rent_net_worth, invested_capital_ETF, invested_capital_savings))
           [0..iterations - 1] ([], [], invested_capital_ETF, invested_capital_savings))"

text \<open>Model 3 (lines 157 to 197): an eighth in the ETF pool, and the spread capped at 0.01.\<close>

definition buying_vs_renting3_loop ::
  "(real \<Rightarrow> int \<Rightarrow> real \<Rightarrow> real) \<Rightarrow> (real \<Rightarrow> int \<Rightarrow> real \<Rightarrow> real \<Rightarrow> real) \<Rightarrow>
   real \<Rightarrow> real \<Rightarrow> real \<Rightarrow> real \<Rightarrow> real \<Rightarrow> real \<Rightarrow> real \<Rightarrow> real \<Rightarrow> real \<Rightarrow> real \<Rightarrow> real \<Rightarrow>
   int \<Rightarrow> int \<Rightarrow> real list \<times> real list \<times> real \<times> real" where
  "buying_vs_renting3_loop pmt fv purchase_price down_payment refurbish nebenkost_rate maintenance_rate
       property_taxes initial_rent loan_interest_rate property_appreciation_rate
       rent_inflation_rate investment_return_rate loan_term iterations =
     (let inital_payment = purchase_price * nebenkost_rate + refurbish;
          loan_amount = purchase_price - down_payment;
          monthly_loan_interest_rate = loan_interest_rate / 12;
          monthly_payment = pmt monthly_loan_interest_rate (loan_term * 12) (- loan_amount);
          invested_capital_total = down_payment;
          invested_capital_ETF = invested_capital_total * 1 / 8;
          invested_capital_savings = invested_capital_total * 7 / 8
      in fold
           (\<lambda>month (buy_net_worth, rent_net_worth, invested_capital_ETF, invested_capital_savings).
              let monthly_property_value =
                    purchase_price * (1 + property_appreciation_rate / 12) powi month;
                  monthly_maintenance = (purchase_price * maintenance_rate) / 12;
                  monthly_taxes = property_taxes / 12;
                  monthly_buying_cost = monthly_payment + monthly_maintenance + monthly_taxes;
                  monthly_rent = initial_rent * (1 + rent_inflation_rate / 12) powi month;
                  monthly_savings = monthly_buying_cost - monthly_rent;
                  invested_capital_ETF = invested_capital_ETF + monthly_savings;
                  monthly_investment_return1 = invested_capital_ETF * (investment_return_rate / 12);
                  monthly_investment_return2 =
                    invested_capital_savings * (max (min (loan_interest_rate - 2 / 100) (1 / 100)) 0 / 12);
                  invested_capital_ETF = invested_capital_ETF + monthly_investment_return1;
                  invested_capital_savings = invested_capital_savings + monthly_investment_return2;
                  invested_capital_total = invested_capital_ETF + invested_capital_savings;
                  rent_net_worth = rent_net_worth @ [invested_capital_total];
                  outstanding_balance =
                    fv monthly_loan_interest_rate (month + 1) monthly_payment (- loan_amount);
                  equity = monthly_property_value - outstanding_balance;
                  buy_cumulative_cash_flow = equity - inital_payment;
                  buy_net_worth = buy_net_worth @ [buy_cumulative_cash_flow]
              in (buy_net_worth, rent_net_worth, invested_capital_ETF, invested_capital_savings))
           [0..iterations - 1] ([], [], invested_capital_ETF, invested_capital_savings))"

text \<open>
  Names for what the statements about the simulators speak of: the amount that a month
  adds to the invested capital (\<^verbatim>\<open>monthly_savings\<close>, the buying cost less the rent of
  that month), and the components of a loop's state: the pool that
  receives the savings (\<^verbatim>\<open>invested_capital\<close> in model 1, \<^verbatim>\<open>invested_capital_ETF\<close> in
  models 2 and 3) and the pool that does not (\<^verbatim>\<open>invested_capital_savings\<close>).
\<close>

definition savings_delta ::
  "(real \<Rightarrow> int \<Rightarrow> real \<Rightarrow> real) \<Rightarrow> real \<Rightarrow> real \<Rightarrow> real \<Rightarrow> real \<Rightarrow> real \<Rightarrow> real \<Rightarrow> real \<Rightarrow> int \<Rightarrow> int \<Rightarrow> real" where
  "savings_delta pmt purchase_price down_payment maintenance_rate property_taxes initial_rent
       loan_interest_rate rent_inflation_rate loan_term month =
     (pmt (loan_interest_rate / 12) (loan_term * 12) (- (purchase_price - down_payment))
        + (purchase_price * maintenance_rate) / 12 + property_taxes / 12)
     - initial_rent * (1 + rent_inflation_rate / 12) powi month"

definition growth_pool :: "'a \<times> 'b \<times> 'c \<times> 'd \<Rightarrow> 'c" where
  "growth_pool st = fst (snd (snd st))"

definition conservative_pool :: "'a \<times> 'b \<times> 'c \<times> 'd \<Rightarrow> 'd" where
  "conservative_pool st = snd (snd (snd st))"

subsection \<open>The simulators, with the power that can raise\<close>

text \<open>
  Python's \<^verbatim>\<open>x ** n\<close> for a float \<open>x\<close> and an int \<open>n\<close> raises \<^verbatim>\<open>OverflowError\<close> when
  the result is out of the range of floats, and \<^verbatim>\<open>ZeroDivisionError\<close> for \<open>0\<close> to a
  negative power. In the simulators below the power is the parameter \<open>pw\<close>, any function
  that returns a value or an error; \<open>py_pow\<close> is the instance that raises
  \<^verbatim>\<open>OverflowError\<close> from \<open>2\<^sup>1\<^sup>0\<^sup>2\<^sup>4\<close> on, above every finite double, and returns
  the exact power below.
\<close>

definition py_pow :: "real \<Rightarrow> int \<Rightarrow> error + real" where
  "py_pow x n =
     (if x = 0 \<and> n < 0 then Inl ZeroDivisionError
      else if 2 ^ 1024 \<le> \<bar>x powi n\<bar> then Inl OverflowError
      else Inr (x powi n))"

text \<open>
  The loops again, line by line, where the two powers of an iteration (lines 92 and 97 of
  model 1) can raise: the state is then the error, and the remaining iterations do not run.
\<close>

definition buying_vs_renting_loop_raising ::
  "(real \<Rightarrow> int \<Rightarrow> error + real) \<Rightarrow>
   (real \<Rightarrow> int \<Rightarrow> real \<Rightarrow> real) \<Rightarrow> (real \<Rightarrow> int \<Rightarrow> real \<Rightarrow> real \<Rightarrow> real) \<Rightarrow>
   real \<Rightarrow> real \<Rightarrow> real \<Rightarrow> real \<Rightarrow> real \<Rightarrow> real \<Rightarrow> real \<Rightarrow> real \<Rightarrow> real \<Rightarrow> real \<Rightarrow> real \<Rightarrow>
   int \<Rightarrow> int \<Rightarrow> error + (real list \<times> real list \<times> real \<times> real option)" where
  "buying_vs_renting_loop_raising pw pmt fv purchase_price down_payment refurbish nebenkost_rate
       maintenance_rate property_taxes initial_rent loan_interest_rate
       property_appreciation_rate rent_inflation_rate investment_return_rate loan_term iterations =
     (let inital_payment = purchase_price * nebenkost_rate + refurbish;
          loan_amount = purchase_price - down_payment;
          monthly_loan_interest_rate = loan_interest_rate / 12;
          monthly_payment = pmt monthly_loan_interest_rate (loan_term * 12) (- loan_amount)
      in fold
           (\<lambda>month state.
              case state of
                Inl e \<Rightarrow> Inl e
              | Inr (buy_net_worth, rent_net_worth, invested_capital, last_savings) \<Rightarrow>
                 (case pw (1 + property_appreciation_rate / 12) month of
                    Inl e \<Rightarrow> Inl e
                  | Inr appreciation \<Rightarrow>
                     (case pw (1 + rent_inflation_rate / 12) month of
                        Inl e \<Rightarrow> Inl e
                      | Inr inflation \<Rightarrow>
                         (let monthly_property_value = purchase_price * appreciation;
                              monthly_maintenance = (purchase_price * maintenance_rate) / 12;
                              monthly_taxes = property_taxes / 12;
                              monthly_buying_cost =
                                monthly_payment + monthly_maintenance + monthly_taxes;
                              monthly_rent = initial_rent * inflation;
                              monthly_savings = monthly_buying_cost - monthly_rent;
                              invested_capital = invested_capital + monthly_savings;
                              monthly_investment_return = invested_capital * (investment_return_rate / 12);
                              invested_capital = invested_capital + monthly_investment_return;
                              rent_net_worth = rent_net_worth @ [invested_capital];
                              outstanding_balance =
                                fv monthly_loan_interest_rate (month + 1) monthly_payment
                                  (- loan_amount);
                              equity = monthly_property_value - outstanding_balance;
                              buy_cumulative_cash_flow = equity - inital_payment;
                              buy_net_worth = buy_net_worth @ [buy_cumulative_cash_flow]
                          in Inr (buy_net_worth, rent_net_worth, invested_capital, Some monthly_savings)))))
           [0..iterations - 1] (Inr ([], [], down_payment, None)))"

text \<open>
  \<^verbatim>\<open>buying_vs_renting\<close> returns the two lists, \<^verbatim>\<open>list(range(months))\<close> and the last
  \<^verbatim>\<open>monthly_savings\<close>; reading that variable fails when the loop has not run.
\<close>

definition buying_vs_renting ::
  "(real \<Rightarrow> int \<Rightarrow> error + real) \<Rightarrow>
   (real \<Rightarrow> int \<Rightarrow> real \<Rightarrow> real) \<Rightarrow> (real \<Rightarrow> int \<Rightarrow> real \<Rightarrow> real \<Rightarrow> real) \<Rightarrow>
   real \<Rightarrow> real \<Rightarrow> real \<Rightarrow> real \<Rightarrow> real \<Rightarrow> real \<Rightarrow> real \<Rightarrow> real \<Rightarrow> real \<Rightarrow> real \<Rightarrow> real \<Rightarrow>
   int \<Rightarrow> error + (real list \<times> real list \<times> int list \<times> real)" where
  "buying_vs_renting pw pmt fv purchase_price down_payment refurbish nebenkost_rate
       maintenance_rate property_taxes initial_rent loan_interest_rate
       property_appreciation_rate rent_inflation_rate investment_return_rate loan_term =
     (let years = loan_term;
          months = years * 12
      in case buying_vs_renting_loop_raising pw pmt fv purchase_price down_payment refurbish nebenkost_rate
                maintenance_rate property_taxes initial_rent loan_interest_rate
                property_appreciation_rate rent_inflation_rate investment_return_rate
                loan_term months of
           Inl e \<Rightarrow> Inl e
         | Inr (buy_net_worth, rent_net_worth, invested_capital, None) \<Rightarrow> Inl UnboundLocalError
         | Inr (buy_net_worth, rent_net_worth, invested_capital, Some last_monthly_savings) \<Rightarrow>
             Inr (buy_net_worth, rent_net_worth, [0..months - 1], last_monthly_savings))"

definition buying_vs_renting2_loop_raising ::
  "(real \<Rightarrow> int \<Rightarrow> error + real) \<Rightarrow>
   (real \<Rightarrow> int \<Rightarrow> real \<Rightarrow> real) \<Rightarrow> (real \<Rightarrow> int \<Rightarrow> real \<Rightarrow> real \<Rightarrow> real) \<Rightarrow>
   real \<Rightarrow> real \<Rightarrow> real \<Rightarrow> real \<Rightarrow> real \<Rightarrow> real \<Rightarrow> real \<Rightarrow> real \<Rightarrow> real \<Rightarrow> real \<Rightarrow> real \<Rightarrow>
   int \<Rightarrow> int \<Rightarrow> error + (real list \<times> real list \<times> real \<times> real)" where
  "buying_vs_renting2_loop_raising pw pmt fv purchase_price down_payment refurbish nebenkost_rate
       maintenance_rate property_taxes initial_rent loan_interest_rate
       property_appreciation_rate rent_inflation_rate investment_return_rate loan_term iterations =
     (let inital_payment = purchase_price * nebenkost_rate + refurbish;
          loan_amount = purchase_price - down_payment;
          monthly_loan_interest_rate = loan_interest_rate / 12;
          monthly_payment = pmt monthly_loan_interest_rate (loan_term * 12) (- loan_amount);
          invested_capital_total = down_payment;
          invested_capital_ETF = invested_capital_total * 1 / 4;
          invested_capital_savings = invested_capital_total * 3 / 4
      in fold
           (\<lambda>month state.
              case state of
                Inl e \<Rightarrow> Inl e
              | Inr (buy_net_worth, rent_net_worth, invested_capital_ETF, invested_capital_savings) \<Rightarrow>
                 (case pw (1 + property_appreciation_rate / 12) month of
                    Inl e \<Rightarrow> Inl e
                  | Inr appreciation \<Rightarrow>
                     (case pw (1 + rent_inflation_rate / 12) month of
                        Inl e \<Rightarrow> Inl e
                      | Inr inflation \<Rightarrow>
                         (let monthly_property_value = purchase_price * appreciation;
                              monthly_maintenance = (purchase_price * maintenance_rate) / 12;
                              monthly_taxes = property_taxes / 12;
                              monthly_buying_cost =
                                monthly_payment + monthly_maintenance + monthly_taxes;
                              monthly_rent = initial_rent * inflation;
                              monthly_savings = monthly_buying_cost - monthly_rent;
                              invested_capital_ETF = invested_capital_ETF + monthly_savings;
                              monthly_investment_return1 =
                                invested_capital_ETF * (investment_return_rate / 12);
                              monthly_investment_return2 =
                                invested_capital_savings * (max (loan_interest_rate - 2 / 100) 0 / 12);
                              invested_capital_ETF = invested_capital_ETF + monthly_investment_return1;
                              invested_capital_savings =
                                invested_capital_savings + monthly_investment_return2;
                              invested_capital_total = invested_capital_ETF + invested_capital_savings;
                              rent_net_worth = rent_net_worth @ [invested_capital_total];
                              outstanding_balance =
                                fv monthly_loan_interest_rate (month + 1) monthly_payment
                                  (- loan_amount);
                              equity = monthly_property_value - outstanding_balance;
                              buy_cumulative_cash_flow = equity - inital_payment;
                              buy_net_worth = buy_net_worth @ [buy_cumulative_cash_flow]
                          in Inr (buy_net_worth, rent_net_worth, invested_capital_ETF, invested_capital_savings)))))
           [0..iterations - 1] (Inr ([], [], invested_capital_ETF, invested_capital_savings)))"

definition buying_vs_renting2 ::
  "(real \<Rightarrow> int \<Rightarrow> error + real) \<Rightarrow>
   (real \<Rightarrow> int \<Rightarrow> real \<Rightarrow> real) \<Rightarrow> (real \<Rightarrow> int \<Rightarrow> real \<Rightarrow> real \<Rightarrow> real) \<Rightarrow>
   real \<Rightarrow> real \<Rightarrow> real \<Rightarrow> real \<Rightarrow> real \<Rightarrow> real \<Rightarrow> real \<Rightarrow> real \<Rightarrow> real \<Rightarrow> real \<Rightarrow> real \<Rightarrow>
   int \<Rightarrow> error + (real list \<times> real list \<times> int list)" where
  "buying_vs_renting2 pw pmt fv purchase_price down_payment refurbish nebenkost_rate
       maintenance_rate property_taxes initial_rent loan_interest_rate
       property_appreciation_rate rent_inflation_rate investment_return_rate loan_term =
     (let years = loan_term;
          months = years * 12
      in case buying_vs_renting2_loop_raising pw pmt fv purchase_price down_payment refurbish nebenkost_rate
                maintenance_rate property_taxes initial_rent loan_interest_rate
                property_appreciation_rate rent_inflation_rate investment_return_rate
                loan_term months of
           Inl e \<Rightarrow> Inl e
         | Inr (buy_net_worth, rent_net_worth, invested_capital_ETF, invested_capital_savings) \<Rightarrow>
             Inr (buy_net_worth, rent_net_worth, [0..months - 1]))"

definition buying_vs_renting3_loop_raising ::
  "(real \<Rightarrow> int \<Rightarrow> error + real) \<Rightarrow>
   (real \<Rightarrow> int \<Rightarrow> real \<Rightarrow> real) \<Rightarrow> (real \<Rightarrow> int \<Rightarrow> real \<Rightarrow> real \<Rightarrow> real) \<Rightarrow>
   real \<Rightarrow> real \<Rightarrow> real \<Rightarrow> real \<Rightarrow> real \<Rightarrow> real \<Rightarrow> real \<Rightarrow> real \<Rightarrow> real \<Rightarrow> real \<Rightarrow> real \<Rightarrow>
   int \<Rightarrow> int \<Rightarrow> error + (real list \<times> real list \<times> real \<times> real)" where
  "buying_vs_renting3_loop_raising pw pmt fv purchase_price down_payment refurbish nebenkost_rate
       maintenance_rate property_taxes initial_rent loan_interest_rate
       property_appreciation_rate rent_inflation_rate investment_return_rate loan_term iterations =
     (let inital_payment = purchase_price * nebenkost_rate + refurbish;
          loan_amount = purchase_price - down_payment;
          monthly_loan_interest_rate = loan_interest_rate / 12;
          monthly_payment = pmt monthly_loan_interest_rate (loan_term * 12) (- loan_amount);
          invested_capital_total = down_payment;
          invested_capital_ETF = invested_capital_total * 1 / 8;
          invested_capital_savings = invested_capital_total * 7 / 8
      in fold
           (\<lambda>month state.
              case state of
                Inl e \<Rightarrow> Inl e
              | Inr (buy_net_worth, rent_net_worth, invested_capital_ETF, invested_capital_savings) \<Rightarrow>
                 (case pw (1 + property_appreciation_rate / 12) month of
                    Inl e \<Rightarrow> Inl e
                  | Inr appreciation \<Rightarrow>
                     (case pw (1 + rent_inflation_rate / 12) month of
                        Inl e \<Rightarrow> Inl e
                      | Inr inflation \<Rightarrow>
                         (let monthly_property_value = purchase_price * appreciation;
                              monthly_maintenance = (purchase_price * maintenance_rate) / 12;
                              monthly_taxes = property_taxes / 12;
                              monthly_buying_cost =
                                monthly_payment + monthly_maintenance + monthly_taxes;
                              monthly_rent = initial_rent * inflation;
                              monthly_savings = monthly_buying_cost - monthly_rent;
                              invested_capital_ETF = invested_capital_ETF + monthly_savings;
                              monthly_investment_return1 =
                                invested_capital_ETF * (investment_return_rate / 12);
                              monthly_investment_return2 =
                                invested_capital_savings * (max (min (loan_interest_rate - 2 / 100) (1 / 100)) 0 / 12);
                              invested_capital_ETF = invested_capital_ETF + monthly_investment_return1;
                              invested_capital_savings =
                                invested_capital_savings + monthly_investment_return2;
                              invested_capital_total = invested_capital_ETF + invested_capital_savings;
                              rent_net_worth = rent_net_worth @ [invested_capital_total];
                              outstanding_balance =
                                fv monthly_loan_interest_rate (month + 1) monthly_payment
                                  (- loan_amount);
                              equity = monthly_property_value - outstanding_balance;
                              buy_cumulative_cash_flow = equity - inital_payment;
                              buy_net_worth = buy_net_worth @ [buy_cumulative_cash_flow]
                          in Inr (buy_net_worth, rent_net_worth, invested_capital_ETF, invested_capital_savings)))))
           [0..iterations - 1] (Inr ([], [], invested_capital_ETF, invested_capital_savings)))"

definition buying_vs_renting3 ::
  "(real \<Rightarrow> int \<Rightarrow> error + real) \<Rightarrow>
   (real \<Rightarrow> int \<Rightarrow> real \<Rightarrow> real) \<Rightarrow> (real \<Rightarrow> int \<Rightarrow> real \<Rightarrow> real \<Rightarrow> real) \<Rightarrow>
   real \<Rightarrow> real \<Rightarrow> real \<Rightarrow> real \<Rightarrow> real \<Rightarrow> real \<Rightarrow> real \<Rightarrow> real \<Rightarrow> real \<Rightarrow> real \<Rightarrow> real \<Rightarrow>
   int \<Rightarrow> error + (real list \<times> real list \<times> int list)" where
  "buying_vs_renting3 pw pmt fv purchase_price down_payment refurbish nebenkost_rate
       maintenance_rate property_taxes initial_rent loan_interest_rate
       property_appreciation_rate rent_inflation_rate investment_return_rate loan_term =
     (let years = loan_term;
          months = years * 12
      in case buying_vs_renting3_loop_raising pw pmt fv purchase_price down_payment refurbish nebenkost_rate
                maintenance_rate property_taxes initial_rent loan_interest_rate
                property_appreciation_rate rent_inflation_rate investment_return_rate
                loan_term months of
           Inl e \<Rightarrow> Inl e
         | Inr (buy_net_worth, rent_net_worth, invested_capital_ETF, invested_capital_savings) \<Rightarrow>
             Inr (buy_net_worth, rent_net_worth, [0..months - 1]))"

text \<open>The rent-side outcome of a simulator: the series it returns, or the error it raises.\<close>

definition rent_series1 ::
  "error + (real list \<times> real list \<times> int list \<times> real) \<Rightarrow> error + real list" where
  "rent_series1 res =
     (case res of Inl e \<Rightarrow> Inl e
      | Inr (buy_net_worth, rent_net_worth, months_list, last_monthly_savings) \<Rightarrow> Inr rent_net_worth)"

definition rent_series ::
  "error + (real list \<times> real list \<times> int list) \<Rightarrow> error + real list" where
  "rent_series res =
     (case res of Inl e \<Rightarrow> Inl e
      | Inr (buy_net_worth, rent_net_worth, months_list) \<Rightarrow> Inr rent_net_worth)"

text \<open>
  Modelled from the spec: \<^verbatim>\<open>numpy_financial.pmt\<close> and \<^verbatim>\<open>numpy_financial.fv\<close>, which the
  repository imports and does not contain. The specification calls them the amortization
  formula for the fixed monthly payment and the future value of an annuity for the
  outstanding balance (payments at the end of a period). The theorems hold for every
  \<open>pmt\<close> and \<open>fv\<close>: these two only serve to run the simulators on a concrete scenario.
\<close>

definition npf_pmt :: "real \<Rightarrow> int \<Rightarrow> real \<Rightarrow> real" where
  "npf_pmt rate nper pv =
     (if rate = 0 then - pv / of_int nper
      else - (pv * (1 + rate) powi nper) / (((1 + rate) powi nper - 1) / rate))"

definition npf_fv :: "real \<Rightarrow> int \<Rightarrow> real \<Rightarrow> real \<Rightarrow> real" where
  "npf_fv rate nper payment pv =
     (if rate = 0 then - (pv + payment * of_int nper)
      else - (pv * (1 + rate) powi nper + payment * ((1 + rate) powi nper - 1) / rate))"

section \<open>Properties of the amortization solver\<close>

subsection \<open>Auxiliary facts about the two loops\<close>

lemma deplete_nonpositive: "remaining_balance \<le> 0 \<Longrightarrow> deplete p r remaining_balance m = Inr m"
  by (simp add: deplete.simps)

lemma fold_interest_zero_rate:
  "snd (fold (interest_step p 0) ms (b, t)) = t"
  by (induction ms arbitrary: b t) (simp_all add: interest_step_def Let_def)

lemma recalculate_interest_zero_rate: "recalculate_interest P p 0 n = 0"
  by (simp add: recalculate_interest_def fold_interest_zero_rate)



lemma deplete_bound: "m \<le> 12000 \<Longrightarrow> deplete p r b m = Inr n \<Longrightarrow> n \<le> 12001"
proof (induction p r b m rule: deplete.induct)
  case (1 p r b m)
  show ?case
  proof (cases "0 < b \<and> \<not> p - b * r \<le> 0 \<and> \<not> 12000 < m + 1")
    case True
    with "1.prems" have "deplete p r (b - (p - b * r)) (m + 1) = Inr n"
      by (subst (asm) deplete.simps) (simp add: Let_def)
    with "1.IH" [OF _ refl refl refl _ refl] True show ?thesis by simp
  next
    case False
    with "1.prems" show ?thesis
      by (subst (asm) deplete.simps) (auto simp: Let_def split: if_splits)
  qed
qed

lemma deplete_cap_hit: "0 < b \<Longrightarrow> b * r < p \<Longrightarrow> deplete p r b 12000 = Inr 12001"
  by (subst deplete.simps) (simp add: Let_def)

lemma deplete_not_exactly_one: "deplete p r b m \<noteq> Inl ExactlyOneError"
  by (induction p r b m rule: deplete.induct) (subst deplete.simps, simp add: Let_def)

lemma deplete_zero_rate_cap:
  "r = 0 \<Longrightarrow> 0 < p \<Longrightarrow> m \<le> 12000 \<Longrightarrow> real (12000 - m) * p < b
     \<Longrightarrow> deplete p r b m = Inr 12001"
proof (induction p r b m rule: deplete.induct)
  case (1 p r b m)
  have "0 \<le> real (12000 - m) * p" using "1.prems" by simp
  with "1.prems" have b: "0 < b" by linarith
  show ?case
  proof (cases "m = 12000")
    case True
    with b "1.prems" show ?thesis by (subst deplete.simps) (simp add: Let_def)
  next
    case False
    with "1.prems" have m: "m + 1 \<le> 12000" by simp
    define x where "x = real (12000 - (m + 1))"
    have "12000 - m = Suc (12000 - (m + 1))" using m by arith
    then have "real (12000 - m) = x + 1" unfolding x_def by (simp only: of_nat_Suc)
    with "1.prems"(4) have "(x + 1) * p < b" by (simp only:)
    then have "x * p < b - (p - b * r)"
      using "1.prems"(1) by (simp add: distrib_right)
    then have b': "real (12000 - (m + 1)) * p < b - (p - b * r)" unfolding x_def .
    have "deplete p r (b - (p - b * r)) (m + 1) = Inr 12001"
      using "1.IH" [OF _ refl refl refl _ refl _ "1.prems"(1,2) m b'] b "1.prems" m by simp
    with b m "1.prems" show ?thesis by (subst deplete.simps) (simp add: Let_def)
  qed
qed

lemma solve_payment_known_months:
  "solve_payment_and_months P rate (Some p) None = Inr (p', n) \<Longrightarrow> n \<le> 12001"
proof -
  assume a: "solve_payment_and_months P rate (Some p) None = Inr (p', n)"
  then obtain k where k: "deplete p (rate / 12) P 0 = Inr k" and n: "n = int k"
    by (auto simp: solve_payment_and_months_def Let_def split: sum.splits)
  from deplete_bound [OF _ k] have "k \<le> 12001" by simp
  with n show ?thesis by simp
qed

subsection \<open>Exactly one of payment and term\<close>

text \<open>
  Claim C2. \<^verbatim>\<open>calculate_amortization\<close> raises the error "Provide exactly one of
  (monthly_payment or loan_term)" if and only if the caller supplies both of
  \<^verbatim>\<open>monthly_payment\<close> and \<^verbatim>\<open>loan_term\<close> or neither of them; with exactly one supplied,
  whatever else happens, that error is not raised.
\<close>

theorem exactly_one_error_iff:
  "calculate_amortization loan_amount annual_interest_rate payment term = Inl ExactlyOneError
   \<longleftrightarrow> (payment = None) = (term = None)"
  using deplete_not_exactly_one
  by (auto simp: calculate_amortization_def solve_payment_and_months_def py_div_def Let_def
      split: option.splits sum.splits prod.splits if_splits)

subsection \<open>A payment that does not cover the interest\<close>



subsection \<open>The zero-rate loan\<close>

text \<open>
  Claim C6. For a loan amount \<open>P > 0\<close> and a term of \<open>T \<ge> 1\<close> years, the call with an annual
  rate of 0 and the term \<open>T\<close> returns the monthly payment \<open>P / (12\<cdot>T)\<close> exactly and a total
  interest paid of exactly 0.
\<close>

theorem zero_rate_loan:
  assumes "0 < P" "1 \<le> T"
  shows "\<exists>res. calculate_amortization P 0 None (Some T) = Inr res
           \<and> monthly_payment res = P / of_int (12 * T) \<and> total_interest_paid res = 0"
  using assms
  by (simp add: calculate_amortization_def solve_payment_and_months_def py_div_def Let_def
      recalculate_interest_zero_rate mult.commute)

theorem zero_rate_loan_witness:
  "(0::real) < 1200 \<and> (1::int) \<le> 1
   \<and> (\<exists>res. calculate_amortization 1200 0 None (Some 1) = Inr res
           \<and> monthly_payment res = 1200 / of_int (12 * 1) \<and> total_interest_paid res = 0)"
  using zero_rate_loan [of 1200 1] by simp

subsection \<open>Round trip: term to payment and back\<close>




subsection \<open>Termination and the cap of the depletion loop\<close>

text \<open>
  Claim C5, as the code has it. The depletion loop is the total function \<open>deplete\<close>: it
  always terminates. Whenever the call with a known payment returns, \<^verbatim>\<open>total_months\<close> is
  at most 12001: the loop tests \<^verbatim>\<open>months > 1000*12\<close> after it has counted the month, so
  it leaves with one month more than 12000. When the loop is entered with 12000 months
  counted and a balance that is still positive, the count 12001 is returned as the result,
  not an error.
\<close>

theorem payment_known_cap:
  "(calculate_amortization P rate (Some p) None = Inr res \<longrightarrow> total_months res \<le> 12001)
   \<and> (0 < b \<and> b * r < p \<longrightarrow> deplete p r b 12000 = Inr 12001)"
proof (intro conjI impI)
  assume "calculate_amortization P rate (Some p) None = Inr res"
  then obtain p' where "solve_payment_and_months P rate (Some p) None = Inr (p', total_months res)"
    by (auto simp: calculate_amortization_def py_div_def Let_def split: sum.splits if_splits)
  then show "total_months res \<le> 12001" by (rule solve_payment_known_months)
next
  assume "0 < b \<and> b * r < p"
  then show "deplete p r b 12000 = Inr 12001" by (simp add: deplete_cap_hit)
qed

theorem payment_known_cap_witness:
  "calculate_amortization 1 0 (Some 1) None =
     Inr \<lparr>monthly_payment = 1, total_interest_paid = 0, total_months = 1, initial_tilgung_rate = 12\<rparr>
   \<and> total_months \<lparr>monthly_payment = 1, total_interest_paid = 0, total_months = 1, initial_tilgung_rate = 12\<rparr> \<le> 12001
   \<and> (0::real) < 5 \<and> (5::real) * 0 < 1 \<and> deplete 1 0 5 12000 = Inr 12001"
proof -
  have "deplete 1 0 1 0 = Inr 1"
    by (subst deplete.simps) (simp add: Let_def deplete_nonpositive)
  then have c: "calculate_amortization 1 0 (Some 1) None =
     Inr \<lparr>monthly_payment = 1, total_interest_paid = 0, total_months = 1, initial_tilgung_rate = 12\<rparr>"
    by (simp add: calculate_amortization_def solve_payment_and_months_def py_div_def Let_def
      recalculate_interest_zero_rate)
  from c payment_known_cap [of 1 0 1 "\<lparr>monthly_payment = 1, total_interest_paid = 0, total_months = 1, initial_tilgung_rate = 12\<rparr>" 5 0]
  show ?thesis by simp
qed

text \<open>
  The bound 12000 of the claim fails: a loan of 20000 at rate 0 paid back by 1 a month
  is cut off with 12001 months counted.
\<close>

theorem cap_counterexample:
  "calculate_amortization 20000 0 (Some 1) None =
     Inr \<lparr>monthly_payment = 1, total_interest_paid = 0, total_months = 12001,
          initial_tilgung_rate = 12 / 20000\<rparr>"
proof -
  have "deplete 1 0 20000 0 = Inr 12001"
    by (rule deplete_zero_rate_cap) simp_all
  then show ?thesis
    by (simp add: calculate_amortization_def solve_payment_and_months_def py_div_def Let_def
      recalculate_interest_zero_rate)
qed

subsection \<open>A negative loan amount\<close>

text \<open>
  Claim C10. For a loan amount below 0 and any monthly payment, with no term supplied, the
  depletion loop runs no iteration and \<^verbatim>\<open>calculate_amortization\<close> returns normally
  with \<^verbatim>\<open>total_months = 0\<close> and \<^verbatim>\<open>total_interest_paid = 0\<close>: neither error is raised.
\<close>

theorem negative_loan_amount:
  "loan_amount < 0 \<Longrightarrow>
   \<exists>res. calculate_amortization loan_amount annual_interest_rate (Some p) None = Inr res
     \<and> total_months res = 0 \<and> total_interest_paid res = 0"
  by (simp add: calculate_amortization_def solve_payment_and_months_def py_div_def Let_def recalculate_interest_def deplete_nonpositive)

theorem negative_loan_amount_witness:
  "(-100::real) < 0 \<and> (\<exists>res. calculate_amortization (-100) (4/100) (Some 5) None = Inr res
     \<and> total_months res = 0 \<and> total_interest_paid res = 0)"
  using negative_loan_amount [of "-100" "4/100" 5] by simp

section \<open>Properties of the simulators\<close>

subsection \<open>One iteration of each loop in exact arithmetic\<close>

lemma upto_Suc_iterations: "[0..int (Suc m) - 1] = [0..int m - 1] @ [int m]"
  by (simp add: upto_rec2)

lemma loop1_start:
  "k \<le> 0 \<Longrightarrow> buying_vs_renting_loop pmt fv pp dp rf nk mr pt ir lir par rir irr lt k = ([], [], dp, None)"
  by (simp add: buying_vs_renting_loop_def Let_def)

lemma loop1_step:
  "buying_vs_renting_loop pmt fv pp dp rf nk mr pt ir lir par rir irr lt (int (Suc m)) =
     (case buying_vs_renting_loop pmt fv pp dp rf nk mr pt ir lir par rir irr lt (int m) of
        (buy, rent, capital, last_savings) \<Rightarrow>
          let delta = savings_delta pmt pp dp mr pt ir lir rir lt (int m);
              capital' = (capital + delta) + (capital + delta) * (irr / 12)
          in (buy @ [pp * (1 + par / 12) powi (int m)
                      - fv (lir / 12) (int m + 1) (pmt (lir / 12) (lt * 12) (- (pp - dp))) (- (pp - dp))
                      - (pp * nk + rf)],
              rent @ [capital'], capital', Some delta))"
  unfolding buying_vs_renting_loop_def upto_Suc_iterations
  by (simp add: Let_def split_def savings_delta_def)

lemma loop2_start:
  "k \<le> 0 \<Longrightarrow> buying_vs_renting2_loop pmt fv pp dp rf nk mr pt ir lir par rir irr lt k = ([], [], dp * (1 / 4), dp * (3 / 4))"
  by (simp add: buying_vs_renting2_loop_def Let_def)

lemma loop2_step:
  "buying_vs_renting2_loop pmt fv pp dp rf nk mr pt ir lir par rir irr lt (int (Suc m)) =
     (case buying_vs_renting2_loop pmt fv pp dp rf nk mr pt ir lir par rir irr lt (int m) of
        (buy, rent, etf, savings) \<Rightarrow>
          let delta = savings_delta pmt pp dp mr pt ir lir rir lt (int m);
              etf' = (etf + delta) + (etf + delta) * (irr / 12);
              savings' = savings + savings * (max (lir - 2 / 100) 0 / 12)
          in (buy @ [pp * (1 + par / 12) powi (int m)
                      - fv (lir / 12) (int m + 1) (pmt (lir / 12) (lt * 12) (- (pp - dp))) (- (pp - dp))
                      - (pp * nk + rf)],
              rent @ [etf' + savings'], etf', savings'))"
  unfolding buying_vs_renting2_loop_def upto_Suc_iterations
  by (simp add: Let_def split_def savings_delta_def)

lemma conservative_pool2:
  "conservative_pool (buying_vs_renting2_loop pmt fv pp dp rf nk mr pt ir lir par rir irr lt (int m)) = dp * (3 / 4) * (1 + max (lir - 2 / 100) 0 / 12) ^ m"
proof (induction m)
  case 0
  show ?case by (simp add: conservative_pool_def loop2_start)
next
  case (Suc m)
  have "conservative_pool (buying_vs_renting2_loop pmt fv pp dp rf nk mr pt ir lir par rir irr lt (int (Suc m))) =
        conservative_pool (buying_vs_renting2_loop pmt fv pp dp rf nk mr pt ir lir par rir irr lt (int m)) * (1 + max (lir - 2 / 100) 0 / 12)"
    unfolding loop2_step by (simp add: conservative_pool_def split_def Let_def algebra_simps)
  with Suc show ?case by simp
qed

lemma growth_pool2_step:
  "growth_pool (buying_vs_renting2_loop pmt fv pp dp rf nk mr pt ir lir par rir irr lt (int (Suc m))) =
     (growth_pool (buying_vs_renting2_loop pmt fv pp dp rf nk mr pt ir lir par rir irr lt (int m)) + savings_delta pmt pp dp mr pt ir lir rir lt (int m))
     + (growth_pool (buying_vs_renting2_loop pmt fv pp dp rf nk mr pt ir lir par rir irr lt (int m)) + savings_delta pmt pp dp mr pt ir lir rir lt (int m)) * (irr / 12)"
  unfolding loop2_step by (simp add: growth_pool_def split_def Let_def)

lemma loop3_start:
  "k \<le> 0 \<Longrightarrow> buying_vs_renting3_loop pmt fv pp dp rf nk mr pt ir lir par rir irr lt k = ([], [], dp * (1 / 8), dp * (7 / 8))"
  by (simp add: buying_vs_renting3_loop_def Let_def)

lemma loop3_step:
  "buying_vs_renting3_loop pmt fv pp dp rf nk mr pt ir lir par rir irr lt (int (Suc m)) =
     (case buying_vs_renting3_loop pmt fv pp dp rf nk mr pt ir lir par rir irr lt (int m) of
        (buy, rent, etf, savings) \<Rightarrow>
          let delta = savings_delta pmt pp dp mr pt ir lir rir lt (int m);
              etf' = (etf + delta) + (etf + delta) * (irr / 12);
              savings' = savings + savings * (max (min (lir - 2 / 100) (1 / 100)) 0 / 12)
          in (buy @ [pp * (1 + par / 12) powi (int m)
                      - fv (lir / 12) (int m + 1) (pmt (lir / 12) (lt * 12) (- (pp - dp))) (- (pp - dp))
                      - (pp * nk + rf)],
              rent @ [etf' + savings'], etf', savings'))"
  unfolding buying_vs_renting3_loop_def upto_Suc_iterations
  by (simp add: Let_def split_def savings_delta_def)

lemma conservative_pool3:
  "conservative_pool (buying_vs_renting3_loop pmt fv pp dp rf nk mr pt ir lir par rir irr lt (int m)) = dp * (7 / 8) * (1 + max (min (lir - 2 / 100) (1 / 100)) 0 / 12) ^ m"
proof (induction m)
  case 0
  show ?case by (simp add: conservative_pool_def loop3_start)
next
  case (Suc m)
  have "conservative_pool (buying_vs_renting3_loop pmt fv pp dp rf nk mr pt ir lir par rir irr lt (int (Suc m))) =
        conservative_pool (buying_vs_renting3_loop pmt fv pp dp rf nk mr pt ir lir par rir irr lt (int m)) * (1 + max (min (lir - 2 / 100) (1 / 100)) 0 / 12)"
    unfolding loop3_step by (simp add: conservative_pool_def split_def Let_def algebra_simps)
  with Suc show ?case by simp
qed

lemma growth_pool3_step:
  "growth_pool (buying_vs_renting3_loop pmt fv pp dp rf nk mr pt ir lir par rir irr lt (int (Suc m))) =
     (growth_pool (buying_vs_renting3_loop pmt fv pp dp rf nk mr pt ir lir par rir irr lt (int m)) + savings_delta pmt pp dp mr pt ir lir rir lt (int m))
     + (growth_pool (buying_vs_renting3_loop pmt fv pp dp rf nk mr pt ir lir par rir irr lt (int m)) + savings_delta pmt pp dp mr pt ir lir rir lt (int m)) * (irr / 12)"
  unfolding loop3_step by (simp add: growth_pool_def split_def Let_def)

lemma growth_pool1_step:
  "growth_pool (buying_vs_renting_loop pmt fv pp dp rf nk mr pt ir lir par rir irr lt (int (Suc m))) =
     (growth_pool (buying_vs_renting_loop pmt fv pp dp rf nk mr pt ir lir par rir irr lt (int m)) + savings_delta pmt pp dp mr pt ir lir rir lt (int m))
     + (growth_pool (buying_vs_renting_loop pmt fv pp dp rf nk mr pt ir lir par rir irr lt (int m)) + savings_delta pmt pp dp mr pt ir lir rir lt (int m)) * (irr / 12)"
  unfolding loop1_step by (simp add: growth_pool_def split_def Let_def)

subsection \<open>Contribution first, return second\<close>

text \<open>
  Claim C7. In every month of every simulation the month's savings are added to the growth
  pool (the only pool of model 1) before that pool's return is computed, on the new total;
  the conservative pool of models 2 and 3 receives no contribution: after \<open>m\<close> months it
  holds its share of the down payment, compounded by its own spread rate and nothing else.
\<close>

theorem contribution_before_return:
  "growth_pool (buying_vs_renting_loop pmt fv pp dp rf nk mr pt ir lir par rir irr lt (int (Suc m))) =
     (growth_pool (buying_vs_renting_loop pmt fv pp dp rf nk mr pt ir lir par rir irr lt (int m)) + savings_delta pmt pp dp mr pt ir lir rir lt (int m))
     + (growth_pool (buying_vs_renting_loop pmt fv pp dp rf nk mr pt ir lir par rir irr lt (int m)) + savings_delta pmt pp dp mr pt ir lir rir lt (int m)) * (irr / 12)
   \<and> growth_pool (buying_vs_renting2_loop pmt fv pp dp rf nk mr pt ir lir par rir irr lt (int (Suc m))) =
     (growth_pool (buying_vs_renting2_loop pmt fv pp dp rf nk mr pt ir lir par rir irr lt (int m)) + savings_delta pmt pp dp mr pt ir lir rir lt (int m))
     + (growth_pool (buying_vs_renting2_loop pmt fv pp dp rf nk mr pt ir lir par rir irr lt (int m)) + savings_delta pmt pp dp mr pt ir lir rir lt (int m)) * (irr / 12)
   \<and> growth_pool (buying_vs_renting3_loop pmt fv pp dp rf nk mr pt ir lir par rir irr lt (int (Suc m))) =
     (growth_pool (buying_vs_renting3_loop pmt fv pp dp rf nk mr pt ir lir par rir irr lt (int m)) + savings_delta pmt pp dp mr pt ir lir rir lt (int m))
     + (growth_pool (buying_vs_renting3_loop pmt fv pp dp rf nk mr pt ir lir par rir irr lt (int m)) + savings_delta pmt pp dp mr pt ir lir rir lt (int m)) * (irr / 12)
   \<and> conservative_pool (buying_vs_renting2_loop pmt fv pp dp rf nk mr pt ir lir par rir irr lt (int m)) =
       dp * (3 / 4) * (1 + max (lir - 2 / 100) 0 / 12) ^ m
   \<and> conservative_pool (buying_vs_renting3_loop pmt fv pp dp rf nk mr pt ir lir par rir irr lt (int m)) =
       dp * (7 / 8) * (1 + max (min (lir - 2 / 100) (1 / 100)) 0 / 12) ^ m"
  by (intro conjI growth_pool1_step growth_pool2_step growth_pool3_step
      conservative_pool2 conservative_pool3)

subsection \<open>One iteration of each simulator loop\<close>

lemma raising1_start:
  "k \<le> 0 \<Longrightarrow> buying_vs_renting_loop_raising pw pmt fv pp dp rf nk mr pt ir lir par rir irr lt k = Inr ([], [], dp, None)"
  by (simp add: buying_vs_renting_loop_raising_def Let_def)

lemma raising1_step:
  "buying_vs_renting_loop_raising pw pmt fv pp dp rf nk mr pt ir lir par rir irr lt (int (Suc m)) =
     (case buying_vs_renting_loop_raising pw pmt fv pp dp rf nk mr pt ir lir par rir irr lt (int m) of
        Inl e \<Rightarrow> Inl e
      | Inr (buy, rent, capital, last_savings) \<Rightarrow>
         (case pw (1 + par / 12) (int m) of
            Inl e \<Rightarrow> Inl e
          | Inr appreciation \<Rightarrow>
             (case pw (1 + rir / 12) (int m) of
                Inl e \<Rightarrow> Inl e
              | Inr inflation \<Rightarrow>
                 (let delta = (pmt (lir / 12) (lt * 12) (- (pp - dp)) + (pp * mr) / 12 + pt / 12)
                                - ir * inflation;
                      capital' = (capital + delta) + (capital + delta) * (irr / 12)
                  in Inr (buy @ [pp * appreciation
                            - fv (lir / 12) (int m + 1) (pmt (lir / 12) (lt * 12) (- (pp - dp)))
                                (- (pp - dp))
                            - (pp * nk + rf)],
                          rent @ [capital'], capital', Some delta)))))"
  unfolding buying_vs_renting_loop_raising_def upto_Suc_iterations
  by (simp add: Let_def split: sum.splits prod.splits)

lemma raising2_start:
  "k \<le> 0 \<Longrightarrow> buying_vs_renting2_loop_raising pw pmt fv pp dp rf nk mr pt ir lir par rir irr lt k = Inr ([], [], dp * (1 / 4), dp * (3 / 4))"
  by (simp add: buying_vs_renting2_loop_raising_def Let_def)

lemma raising2_step:
  "buying_vs_renting2_loop_raising pw pmt fv pp dp rf nk mr pt ir lir par rir irr lt (int (Suc m)) =
     (case buying_vs_renting2_loop_raising pw pmt fv pp dp rf nk mr pt ir lir par rir irr lt (int m) of
        Inl e \<Rightarrow> Inl e
      | Inr (buy, rent, etf, savings) \<Rightarrow>
         (case pw (1 + par / 12) (int m) of
            Inl e \<Rightarrow> Inl e
          | Inr appreciation \<Rightarrow>
             (case pw (1 + rir / 12) (int m) of
                Inl e \<Rightarrow> Inl e
              | Inr inflation \<Rightarrow>
                 (let delta = (pmt (lir / 12) (lt * 12) (- (pp - dp)) + (pp * mr) / 12 + pt / 12)
                                - ir * inflation;
                      etf' = (etf + delta) + (etf + delta) * (irr / 12);
                      savings' = savings + savings * (max (lir - 2 / 100) 0 / 12)
                  in Inr (buy @ [pp * appreciation
                            - fv (lir / 12) (int m + 1) (pmt (lir / 12) (lt * 12) (- (pp - dp)))
                                (- (pp - dp))
                            - (pp * nk + rf)],
                          rent @ [etf' + savings'], etf', savings')))))"
  unfolding buying_vs_renting2_loop_raising_def upto_Suc_iterations
  by (simp add: Let_def split: sum.splits prod.splits)

lemma raising3_start:
  "k \<le> 0 \<Longrightarrow> buying_vs_renting3_loop_raising pw pmt fv pp dp rf nk mr pt ir lir par rir irr lt k = Inr ([], [], dp * (1 / 8), dp * (7 / 8))"
  by (simp add: buying_vs_renting3_loop_raising_def Let_def)

lemma raising3_step:
  "buying_vs_renting3_loop_raising pw pmt fv pp dp rf nk mr pt ir lir par rir irr lt (int (Suc m)) =
     (case buying_vs_renting3_loop_raising pw pmt fv pp dp rf nk mr pt ir lir par rir irr lt (int m) of
        Inl e \<Rightarrow> Inl e
      | Inr (buy, rent, etf, savings) \<Rightarrow>
         (case pw (1 + par / 12) (int m) of
            Inl e \<Rightarrow> Inl e
          | Inr appreciation \<Rightarrow>
             (case pw (1 + rir / 12) (int m) of
                Inl e \<Rightarrow> Inl e
              | Inr inflation \<Rightarrow>
                 (let delta = (pmt (lir / 12) (lt * 12) (- (pp - dp)) + (pp * mr) / 12 + pt / 12)
                                - ir * inflation;
                      etf' = (etf + delta) + (etf + delta) * (irr / 12);
                      savings' = savings + savings * (max (min (lir - 2 / 100) (1 / 100)) 0 / 12)
                  in Inr (buy @ [pp * appreciation
                            - fv (lir / 12) (int m + 1) (pmt (lir / 12) (lt * 12) (- (pp - dp)))
                                (- (pp - dp))
                            - (pp * nk + rf)],
                          rent @ [etf' + savings'], etf', savings')))))"
  unfolding buying_vs_renting3_loop_raising_def upto_Suc_iterations
  by (simp add: Let_def split: sum.splits prod.splits)

subsection \<open>The rent side and the buy-side parameters\<close>

text \<open>
  \<^verbatim>\<open>nebenkost_rate\<close> and \<^verbatim>\<open>refurbish\<close> reach the buy-side list only: the rest of the
  state, an error included, does not depend on them.
\<close>

lemma iterations_cases:
  obtains "k \<le> 0" | m where "k = int m"
  by (cases "k \<le> 0") (auto intro: that(2) [of "nat k"])

lemma raising1_costs_nat:
  "map_sum id snd (buying_vs_renting_loop_raising pw pmt fv pp dp rf nk mr pt ir lir par rir irr lt (int m)) = map_sum id snd (buying_vs_renting_loop_raising pw pmt fv pp dp rf' nk' mr pt ir lir par rir irr lt (int m))"
proof (induction m)
  case 0
  show ?case by (simp add: raising1_start)
next
  case (Suc m)
  show ?case
  proof (cases "buying_vs_renting_loop_raising pw pmt fv pp dp rf nk mr pt ir lir par rir irr lt (int m)")
    case (Inl e)
    with Suc have "buying_vs_renting_loop_raising pw pmt fv pp dp rf' nk' mr pt ir lir par rir irr lt (int m) = Inl e"
      by (cases "buying_vs_renting_loop_raising pw pmt fv pp dp rf' nk' mr pt ir lir par rir irr lt (int m)") simp_all
    with Inl show ?thesis unfolding raising1_step by simp
  next
    case (Inr st)
    with Suc obtain st' where st': "buying_vs_renting_loop_raising pw pmt fv pp dp rf' nk' mr pt ir lir par rir irr lt (int m) = Inr st'" "snd st = snd st'"
      by (cases "buying_vs_renting_loop_raising pw pmt fv pp dp rf' nk' mr pt ir lir par rir irr lt (int m)") simp_all
    with Inr show ?thesis unfolding raising1_step
      by (cases st; cases st') (simp add: Let_def split: sum.splits prod.splits)
  qed
qed

lemma raising1_costs:
  "map_sum id snd (buying_vs_renting_loop_raising pw pmt fv pp dp rf nk mr pt ir lir par rir irr lt k) = map_sum id snd (buying_vs_renting_loop_raising pw pmt fv pp dp rf' nk' mr pt ir lir par rir irr lt k)"
proof (cases k rule: iterations_cases)
  case 1
  then show ?thesis by (simp add: raising1_start)
next
  case (2 m)
  then show ?thesis by (simp add: raising1_costs_nat)
qed

lemma raising1_appreciation_nat:
  "buying_vs_renting_loop_raising pw pmt fv pp dp rf nk mr pt ir lir par rir irr lt (int m) = Inr st \<Longrightarrow> buying_vs_renting_loop_raising pw pmt fv pp dp rf' nk' mr pt ir lir par' rir irr lt (int m) = Inr st' \<Longrightarrow> snd st = snd st'"
proof (induction m arbitrary: st st')
  case 0
  then show ?case by (simp add: raising1_start)
next
  case (Suc m)
  from Suc.prems(1) obtain s0 where s0: "buying_vs_renting_loop_raising pw pmt fv pp dp rf nk mr pt ir lir par rir irr lt (int m) = Inr s0"
    unfolding raising1_step by (cases "buying_vs_renting_loop_raising pw pmt fv pp dp rf nk mr pt ir lir par rir irr lt (int m)") simp_all
  from Suc.prems(2) obtain s0' where s0': "buying_vs_renting_loop_raising pw pmt fv pp dp rf' nk' mr pt ir lir par' rir irr lt (int m) = Inr s0'"
    unfolding raising1_step by (cases "buying_vs_renting_loop_raising pw pmt fv pp dp rf' nk' mr pt ir lir par' rir irr lt (int m)") simp_all
  from Suc.IH [OF s0 s0'] have eq: "snd s0 = snd s0'" .
  from Suc.prems eq show ?case unfolding raising1_step s0 s0'
    by (cases s0; cases s0') (auto simp: Let_def split: sum.splits prod.splits)
qed

lemma raising1_appreciation:
  "buying_vs_renting_loop_raising pw pmt fv pp dp rf nk mr pt ir lir par rir irr lt k = Inr st \<Longrightarrow> buying_vs_renting_loop_raising pw pmt fv pp dp rf' nk' mr pt ir lir par' rir irr lt k = Inr st' \<Longrightarrow> snd st = snd st'"
proof (cases k rule: iterations_cases)
  case 1
  assume "buying_vs_renting_loop_raising pw pmt fv pp dp rf nk mr pt ir lir par rir irr lt k = Inr st" "buying_vs_renting_loop_raising pw pmt fv pp dp rf' nk' mr pt ir lir par' rir irr lt k = Inr st'"
  with 1 show ?thesis by (simp add: raising1_start)
next
  case (2 m)
  assume "buying_vs_renting_loop_raising pw pmt fv pp dp rf nk mr pt ir lir par rir irr lt k = Inr st" "buying_vs_renting_loop_raising pw pmt fv pp dp rf' nk' mr pt ir lir par' rir irr lt k = Inr st'"
  with 2 show ?thesis by (auto dest: raising1_appreciation_nat)
qed

lemma raising2_costs_nat:
  "map_sum id snd (buying_vs_renting2_loop_raising pw pmt fv pp dp rf nk mr pt ir lir par rir irr lt (int m)) = map_sum id snd (buying_vs_renting2_loop_raising pw pmt fv pp dp rf' nk' mr pt ir lir par rir irr lt (int m))"
proof (induction m)
  case 0
  show ?case by (simp add: raising2_start)
next
  case (Suc m)
  show ?case
  proof (cases "buying_vs_renting2_loop_raising pw pmt fv pp dp rf nk mr pt ir lir par rir irr lt (int m)")
    case (Inl e)
    with Suc have "buying_vs_renting2_loop_raising pw pmt fv pp dp rf' nk' mr pt ir lir par rir irr lt (int m) = Inl e"
      by (cases "buying_vs_renting2_loop_raising pw pmt fv pp dp rf' nk' mr pt ir lir par rir irr lt (int m)") simp_all
    with Inl show ?thesis unfolding raising2_step by simp
  next
    case (Inr st)
    with Suc obtain st' where st': "buying_vs_renting2_loop_raising pw pmt fv pp dp rf' nk' mr pt ir lir par rir irr lt (int m) = Inr st'" "snd st = snd st'"
      by (cases "buying_vs_renting2_loop_raising pw pmt fv pp dp rf' nk' mr pt ir lir par rir irr lt (int m)") simp_all
    with Inr show ?thesis unfolding raising2_step
      by (cases st; cases st') (simp add: Let_def split: sum.splits prod.splits)
  qed
qed

lemma raising2_costs:
  "map_sum id snd (buying_vs_renting2_loop_raising pw pmt fv pp dp rf nk mr pt ir lir par rir irr lt k) = map_sum id snd (buying_vs_renting2_loop_raising pw pmt fv pp dp rf' nk' mr pt ir lir par rir irr lt k)"
proof (cases k rule: iterations_cases)
  case 1
  then show ?thesis by (simp add: raising2_start)
next
  case (2 m)
  then show ?thesis by (simp add: raising2_costs_nat)
qed

lemma raising2_appreciation_nat:
  "buying_vs_renting2_loop_raising pw pmt fv pp dp rf nk mr pt ir lir par rir irr lt (int m) = Inr st \<Longrightarrow> buying_vs_renting2_loop_raising pw pmt fv pp dp rf' nk' mr pt ir lir par' rir irr lt (int m) = Inr st' \<Longrightarrow> snd st = snd st'"
proof (induction m arbitrary: st st')
  case 0
  then show ?case by (simp add: raising2_start)
next
  case (Suc m)
  from Suc.prems(1) obtain s0 where s0: "buying_vs_renting2_loop_raising pw pmt fv pp dp rf nk mr pt ir lir par rir irr lt (int m) = Inr s0"
    unfolding raising2_step by (cases "buying_vs_renting2_loop_raising pw pmt fv pp dp rf nk mr pt ir lir par rir irr lt (int m)") simp_all
  from Suc.prems(2) obtain s0' where s0': "buying_vs_renting2_loop_raising pw pmt fv pp dp rf' nk' mr pt ir lir par' rir irr lt (int m) = Inr s0'"
    unfolding raising2_step by (cases "buying_vs_renting2_loop_raising pw pmt fv pp dp rf' nk' mr pt ir lir par' rir irr lt (int m)") simp_all
  from Suc.IH [OF s0 s0'] have eq: "snd s0 = snd s0'" .
  from Suc.prems eq show ?case unfolding raising2_step s0 s0'
    by (cases s0; cases s0') (auto simp: Let_def split: sum.splits prod.splits)
qed

lemma raising2_appreciation:
  "buying_vs_renting2_loop_raising pw pmt fv pp dp rf nk mr pt ir lir par rir irr lt k = Inr st \<Longrightarrow> buying_vs_renting2_loop_raising pw pmt fv pp dp rf' nk' mr pt ir lir par' rir irr lt k = Inr st' \<Longrightarrow> snd st = snd st'"
proof (cases k rule: iterations_cases)
  case 1
  assume "buying_vs_renting2_loop_raising pw pmt fv pp dp rf nk mr pt ir lir par rir irr lt k = Inr st" "buying_vs_renting2_loop_raising pw pmt fv pp dp rf' nk' mr pt ir lir par' rir irr lt k = Inr st'"
  with 1 show ?thesis by (simp add: raising2_start)
next
  case (2 m)
  assume "buying_vs_renting2_loop_raising pw pmt fv pp dp rf nk mr pt ir lir par rir irr lt k = Inr st" "buying_vs_renting2_loop_raising pw pmt fv pp dp rf' nk' mr pt ir lir par' rir irr lt k = Inr st'"
  with 2 show ?thesis by (auto dest: raising2_appreciation_nat)
qed

lemma raising3_costs_nat:
  "map_sum id snd (buying_vs_renting3_loop_raising pw pmt fv pp dp rf nk mr pt ir lir par rir irr lt (int m)) = map_sum id snd (buying_vs_renting3_loop_raising pw pmt fv pp dp rf' nk' mr pt ir lir par rir irr lt (int m))"
proof (induction m)
  case 0
  show ?case by (simp add: raising3_start)
next
  case (Suc m)
  show ?case
  proof (cases "buying_vs_renting3_loop_raising pw pmt fv pp dp rf nk mr pt ir lir par rir irr lt (int m)")
    case (Inl e)
    with Suc have "buying_vs_renting3_loop_raising pw pmt fv pp dp rf' nk' mr pt ir lir par rir irr lt (int m) = Inl e"
      by (cases "buying_vs_renting3_loop_raising pw pmt fv pp dp rf' nk' mr pt ir lir par rir irr lt (int m)") simp_all
    with Inl show ?thesis unfolding raising3_step by simp
  next
    case (Inr st)
    with Suc obtain st' where st': "buying_vs_renting3_loop_raising pw pmt fv pp dp rf' nk' mr pt ir lir par rir irr lt (int m) = Inr st'" "snd st = snd st'"
      by (cases "buying_vs_renting3_loop_raising pw pmt fv pp dp rf' nk' mr pt ir lir par rir irr lt (int m)") simp_all
    with Inr show ?thesis unfolding raising3_step
      by (cases st; cases st') (simp add: Let_def split: sum.splits prod.splits)
  qed
qed

lemma raising3_costs:
  "map_sum id snd (buying_vs_renting3_loop_raising pw pmt fv pp dp rf nk mr pt ir lir par rir irr lt k) = map_sum id snd (buying_vs_renting3_loop_raising pw pmt fv pp dp rf' nk' mr pt ir lir par rir irr lt k)"
proof (cases k rule: iterations_cases)
  case 1
  then show ?thesis by (simp add: raising3_start)
next
  case (2 m)
  then show ?thesis by (simp add: raising3_costs_nat)
qed

lemma raising3_appreciation_nat:
  "buying_vs_renting3_loop_raising pw pmt fv pp dp rf nk mr pt ir lir par rir irr lt (int m) = Inr st \<Longrightarrow> buying_vs_renting3_loop_raising pw pmt fv pp dp rf' nk' mr pt ir lir par' rir irr lt (int m) = Inr st' \<Longrightarrow> snd st = snd st'"
proof (induction m arbitrary: st st')
  case 0
  then show ?case by (simp add: raising3_start)
next
  case (Suc m)
  from Suc.prems(1) obtain s0 where s0: "buying_vs_renting3_loop_raising pw pmt fv pp dp rf nk mr pt ir lir par rir irr lt (int m) = Inr s0"
    unfolding raising3_step by (cases "buying_vs_renting3_loop_raising pw pmt fv pp dp rf nk mr pt ir lir par rir irr lt (int m)") simp_all
  from Suc.prems(2) obtain s0' where s0': "buying_vs_renting3_loop_raising pw pmt fv pp dp rf' nk' mr pt ir lir par' rir irr lt (int m) = Inr s0'"
    unfolding raising3_step by (cases "buying_vs_renting3_loop_raising pw pmt fv pp dp rf' nk' mr pt ir lir par' rir irr lt (int m)") simp_all
  from Suc.IH [OF s0 s0'] have eq: "snd s0 = snd s0'" .
  from Suc.prems eq show ?case unfolding raising3_step s0 s0'
    by (cases s0; cases s0') (auto simp: Let_def split: sum.splits prod.splits)
qed

lemma raising3_appreciation:
  "buying_vs_renting3_loop_raising pw pmt fv pp dp rf nk mr pt ir lir par rir irr lt k = Inr st \<Longrightarrow> buying_vs_renting3_loop_raising pw pmt fv pp dp rf' nk' mr pt ir lir par' rir irr lt k = Inr st' \<Longrightarrow> snd st = snd st'"
proof (cases k rule: iterations_cases)
  case 1
  assume "buying_vs_renting3_loop_raising pw pmt fv pp dp rf nk mr pt ir lir par rir irr lt k = Inr st" "buying_vs_renting3_loop_raising pw pmt fv pp dp rf' nk' mr pt ir lir par' rir irr lt k = Inr st'"
  with 1 show ?thesis by (simp add: raising3_start)
next
  case (2 m)
  assume "buying_vs_renting3_loop_raising pw pmt fv pp dp rf nk mr pt ir lir par rir irr lt k = Inr st" "buying_vs_renting3_loop_raising pw pmt fv pp dp rf' nk' mr pt ir lir par' rir irr lt k = Inr st'"
  with 2 show ?thesis by (auto dest: raising3_appreciation_nat)
qed

lemma rent_series1_loop:
  "rent_series1 (buying_vs_renting pw pmt fv pp dp rf nk mr pt ir lir par rir irr lt) =
     (case map_sum id snd (buying_vs_renting_loop_raising pw pmt fv pp dp rf nk mr pt ir lir par rir irr lt (lt * 12)) of
        Inl e \<Rightarrow> Inl e
      | Inr (rent, capital, None) \<Rightarrow> Inl UnboundLocalError
      | Inr (rent, capital, Some last_savings) \<Rightarrow> Inr rent)"
  by (simp add: rent_series1_def buying_vs_renting_def Let_def
      split: sum.splits prod.splits option.splits)

lemma rent_series2_loop:
  "rent_series (buying_vs_renting2 pw pmt fv pp dp rf nk mr pt ir lir par rir irr lt) =
     (case map_sum id snd (buying_vs_renting2_loop_raising pw pmt fv pp dp rf nk mr pt ir lir par rir irr lt (lt * 12)) of
        Inl e \<Rightarrow> Inl e
      | Inr (rent, pools) \<Rightarrow> Inr rent)"
  by (simp add: rent_series_def buying_vs_renting2_def Let_def
      split: sum.splits prod.splits)

lemma rent_series3_loop:
  "rent_series (buying_vs_renting3 pw pmt fv pp dp rf nk mr pt ir lir par rir irr lt) =
     (case map_sum id snd (buying_vs_renting3_loop_raising pw pmt fv pp dp rf nk mr pt ir lir par rir irr lt (lt * 12)) of
        Inl e \<Rightarrow> Inl e
      | Inr (rent, pools) \<Rightarrow> Inr rent)"
  by (simp add: rent_series_def buying_vs_renting3_def Let_def
      split: sum.splits prod.splits)

lemma rent_series1_costs:
  "rent_series1 (buying_vs_renting pw pmt fv pp dp rf nk mr pt ir lir par rir irr lt) = rent_series1 (buying_vs_renting pw pmt fv pp dp rf' nk' mr pt ir lir par rir irr lt)"
  unfolding rent_series1_loop by (simp only: raising1_costs [of pw pmt fv pp dp rf nk mr pt ir lir par rir irr lt "lt * 12" rf' nk'])

lemma rent_series2_costs:
  "rent_series (buying_vs_renting2 pw pmt fv pp dp rf nk mr pt ir lir par rir irr lt) = rent_series (buying_vs_renting2 pw pmt fv pp dp rf' nk' mr pt ir lir par rir irr lt)"
  unfolding rent_series2_loop by (simp only: raising2_costs [of pw pmt fv pp dp rf nk mr pt ir lir par rir irr lt "lt * 12" rf' nk'])

lemma rent_series3_costs:
  "rent_series (buying_vs_renting3 pw pmt fv pp dp rf nk mr pt ir lir par rir irr lt) = rent_series (buying_vs_renting3 pw pmt fv pp dp rf' nk' mr pt ir lir par rir irr lt)"
  unfolding rent_series3_loop by (simp only: raising3_costs [of pw pmt fv pp dp rf nk mr pt ir lir par rir irr lt "lt * 12" rf' nk'])

lemma rent_series1_appreciation:
  assumes "rent_series1 (buying_vs_renting pw pmt fv pp dp rf nk mr pt ir lir par rir irr lt) = Inr r"
    and "rent_series1 (buying_vs_renting pw pmt fv pp dp rf' nk' mr pt ir lir par' rir irr lt) = Inr r'"
  shows "r = r'"
proof -
  from assms(1) obtain st where st: "buying_vs_renting_loop_raising pw pmt fv pp dp rf nk mr pt ir lir par rir irr lt (lt * 12) = Inr st"
    "fst (snd st) = r"
    unfolding rent_series1_loop
    by (cases "buying_vs_renting_loop_raising pw pmt fv pp dp rf nk mr pt ir lir par rir irr lt (lt * 12)")
       (auto split: prod.splits option.splits)
  from assms(2) obtain st' where st': "buying_vs_renting_loop_raising pw pmt fv pp dp rf' nk' mr pt ir lir par' rir irr lt (lt * 12) = Inr st'"
    "fst (snd st') = r'"
    unfolding rent_series1_loop
    by (cases "buying_vs_renting_loop_raising pw pmt fv pp dp rf' nk' mr pt ir lir par' rir irr lt (lt * 12)")
       (auto split: prod.splits option.splits)
  from raising1_appreciation [OF st(1) st'(1)] st(2) st'(2) show ?thesis by simp
qed

lemma rent_series2_appreciation:
  assumes "rent_series (buying_vs_renting2 pw pmt fv pp dp rf nk mr pt ir lir par rir irr lt) = Inr r"
    and "rent_series (buying_vs_renting2 pw pmt fv pp dp rf' nk' mr pt ir lir par' rir irr lt) = Inr r'"
  shows "r = r'"
proof -
  from assms(1) obtain st where st: "buying_vs_renting2_loop_raising pw pmt fv pp dp rf nk mr pt ir lir par rir irr lt (lt * 12) = Inr st"
    "fst (snd st) = r"
    unfolding rent_series2_loop
    by (cases "buying_vs_renting2_loop_raising pw pmt fv pp dp rf nk mr pt ir lir par rir irr lt (lt * 12)")
       (auto split: prod.splits)
  from assms(2) obtain st' where st': "buying_vs_renting2_loop_raising pw pmt fv pp dp rf' nk' mr pt ir lir par' rir irr lt (lt * 12) = Inr st'"
    "fst (snd st') = r'"
    unfolding rent_series2_loop
    by (cases "buying_vs_renting2_loop_raising pw pmt fv pp dp rf' nk' mr pt ir lir par' rir irr lt (lt * 12)")
       (auto split: prod.splits)
  from raising2_appreciation [OF st(1) st'(1)] st(2) st'(2) show ?thesis by simp
qed

lemma rent_series3_appreciation:
  assumes "rent_series (buying_vs_renting3 pw pmt fv pp dp rf nk mr pt ir lir par rir irr lt) = Inr r"
    and "rent_series (buying_vs_renting3 pw pmt fv pp dp rf' nk' mr pt ir lir par' rir irr lt) = Inr r'"
  shows "r = r'"
proof -
  from assms(1) obtain st where st: "buying_vs_renting3_loop_raising pw pmt fv pp dp rf nk mr pt ir lir par rir irr lt (lt * 12) = Inr st"
    "fst (snd st) = r"
    unfolding rent_series3_loop
    by (cases "buying_vs_renting3_loop_raising pw pmt fv pp dp rf nk mr pt ir lir par rir irr lt (lt * 12)")
       (auto split: prod.splits)
  from assms(2) obtain st' where st': "buying_vs_renting3_loop_raising pw pmt fv pp dp rf' nk' mr pt ir lir par' rir irr lt (lt * 12) = Inr st'"
    "fst (snd st') = r'"
    unfolding rent_series3_loop
    by (cases "buying_vs_renting3_loop_raising pw pmt fv pp dp rf' nk' mr pt ir lir par' rir irr lt (lt * 12)")
       (auto split: prod.splits)
  from raising3_appreciation [OF st(1) st'(1)] st(2) st'(2) show ?thesis by simp
qed

text \<open>A power that never raises on the two bases: the loops of exact arithmetic.\<close>

lemma py_pow_four: "py_pow 4 512 = Inl OverflowError"
proof -
  have "(4::real) powi 512 = 4 ^ 512" by (simp add: power_int_def)
  also have "\<dots> = (2 ^ 2) ^ 512" by simp
  also have "\<dots> = 2 ^ 1024" by (simp only: power_mult [symmetric]) simp
  finally have "(4::real) powi 512 = 2 ^ 1024" .
  then show ?thesis by (simp add: py_pow_def)
qed

lemma py_pow_one: "py_pow 1 n = Inr (1 powi n)"
  by (simp add: py_pow_def)

lemma raising1_exact_nat:
  assumes "\<And>n. pw (1 + par / 12) n = Inr ((1 + par / 12) powi n)"
    and "\<And>n. pw (1 + rir / 12) n = Inr ((1 + rir / 12) powi n)"
  shows "buying_vs_renting_loop_raising pw pmt fv pp dp rf nk mr pt ir lir par rir irr lt (int m) = Inr (buying_vs_renting_loop pmt fv pp dp rf nk mr pt ir lir par rir irr lt (int m))"
proof (induction m)
  case 0
  show ?case by (simp add: raising1_start loop1_start)
next
  case (Suc m)
  show ?case unfolding raising1_step loop1_step Suc assms
    by (simp add: Let_def split_def savings_delta_def)
qed

lemma raising1_exact:
  assumes "\<And>n. pw (1 + par / 12) n = Inr ((1 + par / 12) powi n)"
    and "\<And>n. pw (1 + rir / 12) n = Inr ((1 + rir / 12) powi n)"
  shows "buying_vs_renting_loop_raising pw pmt fv pp dp rf nk mr pt ir lir par rir irr lt k = Inr (buying_vs_renting_loop pmt fv pp dp rf nk mr pt ir lir par rir irr lt k)"
proof (cases k rule: iterations_cases)
  case 1
  then show ?thesis by (simp add: raising1_start loop1_start)
next
  case (2 m)
  with assms show ?thesis by (simp add: raising1_exact_nat)
qed

lemma raising2_exact_nat:
  assumes "\<And>n. pw (1 + par / 12) n = Inr ((1 + par / 12) powi n)"
    and "\<And>n. pw (1 + rir / 12) n = Inr ((1 + rir / 12) powi n)"
  shows "buying_vs_renting2_loop_raising pw pmt fv pp dp rf nk mr pt ir lir par rir irr lt (int m) = Inr (buying_vs_renting2_loop pmt fv pp dp rf nk mr pt ir lir par rir irr lt (int m))"
proof (induction m)
  case 0
  show ?case by (simp add: raising2_start loop2_start)
next
  case (Suc m)
  show ?case unfolding raising2_step loop2_step Suc assms
    by (simp add: Let_def split_def savings_delta_def)
qed

lemma raising2_exact:
  assumes "\<And>n. pw (1 + par / 12) n = Inr ((1 + par / 12) powi n)"
    and "\<And>n. pw (1 + rir / 12) n = Inr ((1 + rir / 12) powi n)"
  shows "buying_vs_renting2_loop_raising pw pmt fv pp dp rf nk mr pt ir lir par rir irr lt k = Inr (buying_vs_renting2_loop pmt fv pp dp rf nk mr pt ir lir par rir irr lt k)"
proof (cases k rule: iterations_cases)
  case 1
  then show ?thesis by (simp add: raising2_start loop2_start)
next
  case (2 m)
  with assms show ?thesis by (simp add: raising2_exact_nat)
qed

lemma raising3_exact_nat:
  assumes "\<And>n. pw (1 + par / 12) n = Inr ((1 + par / 12) powi n)"
    and "\<And>n. pw (1 + rir / 12) n = Inr ((1 + rir / 12) powi n)"
  shows "buying_vs_renting3_loop_raising pw pmt fv pp dp rf nk mr pt ir lir par rir irr lt (int m) = Inr (buying_vs_renting3_loop pmt fv pp dp rf nk mr pt ir lir par rir irr lt (int m))"
proof (induction m)
  case 0
  show ?case by (simp add: raising3_start loop3_start)
next
  case (Suc m)
  show ?case unfolding raising3_step loop3_step Suc assms
    by (simp add: Let_def split_def savings_delta_def)
qed

lemma raising3_exact:
  assumes "\<And>n. pw (1 + par / 12) n = Inr ((1 + par / 12) powi n)"
    and "\<And>n. pw (1 + rir / 12) n = Inr ((1 + rir / 12) powi n)"
  shows "buying_vs_renting3_loop_raising pw pmt fv pp dp rf nk mr pt ir lir par rir irr lt k = Inr (buying_vs_renting3_loop pmt fv pp dp rf nk mr pt ir lir par rir irr lt k)"
proof (cases k rule: iterations_cases)
  case 1
  then show ?thesis by (simp add: raising3_start loop3_start)
next
  case (2 m)
  with assms show ?thesis by (simp add: raising3_exact_nat)
qed

lemma rent_series1_exact:
  assumes "\<And>n. pw (1 + par / 12) n = Inr ((1 + par / 12) powi n)"
    and "\<And>n. pw (1 + rir / 12) n = Inr ((1 + rir / 12) powi n)"
    and "lt * 12 = int (Suc m)"
  shows "rent_series1 (buying_vs_renting pw pmt fv pp dp rf nk mr pt ir lir par rir irr lt) =
           Inr (fst (snd (buying_vs_renting_loop pmt fv pp dp rf nk mr pt ir lir par rir irr lt (lt * 12))))"
proof -
  obtain b r c s where st: "buying_vs_renting_loop pmt fv pp dp rf nk mr pt ir lir par rir irr lt (int m) = (b, r, c, s)"
    by (cases "buying_vs_renting_loop pmt fv pp dp rf nk mr pt ir lir par rir irr lt (int m)") auto
  show ?thesis
    unfolding rent_series1_loop raising1_exact [OF assms(1,2)] assms(3) loop1_step st
    by (simp add: Let_def)
qed

lemma rent_series2_exact:
  assumes "\<And>n. pw (1 + par / 12) n = Inr ((1 + par / 12) powi n)"
    and "\<And>n. pw (1 + rir / 12) n = Inr ((1 + rir / 12) powi n)"
  shows "rent_series (buying_vs_renting2 pw pmt fv pp dp rf nk mr pt ir lir par rir irr lt) =
           Inr (fst (snd (buying_vs_renting2_loop pmt fv pp dp rf nk mr pt ir lir par rir irr lt (lt * 12))))"
  unfolding rent_series2_loop raising2_exact [OF assms]
  by (simp add: split_def)

lemma rent_series3_exact:
  assumes "\<And>n. pw (1 + par / 12) n = Inr ((1 + par / 12) powi n)"
    and "\<And>n. pw (1 + rir / 12) n = Inr ((1 + rir / 12) powi n)"
  shows "rent_series (buying_vs_renting3 pw pmt fv pp dp rf nk mr pt ir lir par rir irr lt) =
           Inr (fst (snd (buying_vs_renting3_loop pmt fv pp dp rf nk mr pt ir lir par rir irr lt (lt * 12))))"
  unfolding rent_series3_loop raising3_exact [OF assms]
  by (simp add: split_def)

lemma raising2_overflow:
  assumes "pw (1 + par / 12) (int j) = Inl e"
  shows "j < m \<Longrightarrow> \<exists>e'. buying_vs_renting2_loop_raising pw pmt fv pp dp rf nk mr pt ir lir par rir irr lt (int m) = Inl e'"
proof (induction m)
  case 0
  then show ?case by simp
next
  case (Suc m)
  show ?case
  proof (cases "j = m")
    case True
    with assms show ?thesis unfolding raising2_step
      by (cases "buying_vs_renting2_loop_raising pw pmt fv pp dp rf nk mr pt ir lir par rir irr lt (int m)") (auto split: prod.splits)
  next
    case False
    with Suc.prems have "j < m" by simp
    with Suc.IH obtain e' where "buying_vs_renting2_loop_raising pw pmt fv pp dp rf nk mr pt ir lir par rir irr lt (int m) = Inl e'" by blast
    then show ?thesis unfolding raising2_step by simp
  qed
qed

lemma rent_series2_overflow:
  assumes "pw (1 + par / 12) (int j) = Inl e" "int j < lt * 12"
  shows "\<exists>e'. rent_series (buying_vs_renting2 pw pmt fv pp dp rf nk mr pt ir lir par rir irr lt) = Inl e'"
proof -
  define m where "m = nat (lt * 12)"
  from assms(2) have "0 \<le> lt * 12" by linarith
  with assms(2) have m: "lt * 12 = int m" "j < m" by (simp_all add: m_def)
  have "\<exists>e'. buying_vs_renting2_loop_raising pw pmt fv pp dp rf nk mr pt ir lir par rir irr lt (int m) = Inl e'"
    using assms(1) m(2) by (rule raising2_overflow)
  then obtain e'
    where "buying_vs_renting2_loop_raising pw pmt fv pp dp rf nk mr pt ir lir par rir irr lt (lt * 12) = Inl e'" unfolding m(1) by blast
  then show ?thesis unfolding rent_series2_loop by simp
qed

text \<open>
  Claim C9, as the code has it. The rent-side outcome of each of the three simulators,
  the series or the error raised, is unchanged when only \<^verbatim>\<open>nebenkost_rate\<close> and
  \<^verbatim>\<open>refurbish\<close> vary. When \<^verbatim>\<open>property_appreciation_rate\<close> varies as well, two runs
  that both return have the same rent-side series; whether a run returns can depend on that
  rate, since the power of lines 92, 132 and 175 is computed before the rent side of the
  month and raises \<^verbatim>\<open>OverflowError\<close> when the rate is large.
\<close>

theorem rent_side_noninterference:
  "rent_series1 (buying_vs_renting pw pmt fv pp dp rf nk mr pt ir lir par rir irr lt) = rent_series1 (buying_vs_renting pw pmt fv pp dp rf' nk' mr pt ir lir par rir irr lt)
   \<and> rent_series (buying_vs_renting2 pw pmt fv pp dp rf nk mr pt ir lir par rir irr lt) = rent_series (buying_vs_renting2 pw pmt fv pp dp rf' nk' mr pt ir lir par rir irr lt)
   \<and> rent_series (buying_vs_renting3 pw pmt fv pp dp rf nk mr pt ir lir par rir irr lt) = rent_series (buying_vs_renting3 pw pmt fv pp dp rf' nk' mr pt ir lir par rir irr lt)
   \<and> (rent_series1 (buying_vs_renting pw pmt fv pp dp rf nk mr pt ir lir par rir irr lt) = Inr ra
        \<and> rent_series1 (buying_vs_renting pw pmt fv pp dp rf' nk' mr pt ir lir par' rir irr lt) = Inr ra' \<longrightarrow> ra = ra')
   \<and> (rent_series (buying_vs_renting2 pw pmt fv pp dp rf nk mr pt ir lir par rir irr lt) = Inr rb
        \<and> rent_series (buying_vs_renting2 pw pmt fv pp dp rf' nk' mr pt ir lir par' rir irr lt) = Inr rb' \<longrightarrow> rb = rb')
   \<and> (rent_series (buying_vs_renting3 pw pmt fv pp dp rf nk mr pt ir lir par rir irr lt) = Inr rc
        \<and> rent_series (buying_vs_renting3 pw pmt fv pp dp rf' nk' mr pt ir lir par' rir irr lt) = Inr rc' \<longrightarrow> rc = rc')"
proof (intro conjI impI)
  show "rent_series1 (buying_vs_renting pw pmt fv pp dp rf nk mr pt ir lir par rir irr lt) = rent_series1 (buying_vs_renting pw pmt fv pp dp rf' nk' mr pt ir lir par rir irr lt)"
    by (rule rent_series1_costs)
  show "rent_series (buying_vs_renting2 pw pmt fv pp dp rf nk mr pt ir lir par rir irr lt) = rent_series (buying_vs_renting2 pw pmt fv pp dp rf' nk' mr pt ir lir par rir irr lt)"
    by (rule rent_series2_costs)
  show "rent_series (buying_vs_renting3 pw pmt fv pp dp rf nk mr pt ir lir par rir irr lt) = rent_series (buying_vs_renting3 pw pmt fv pp dp rf' nk' mr pt ir lir par rir irr lt)"
    by (rule rent_series3_costs)
next
  assume "rent_series1 (buying_vs_renting pw pmt fv pp dp rf nk mr pt ir lir par rir irr lt) = Inr ra
        \<and> rent_series1 (buying_vs_renting pw pmt fv pp dp rf' nk' mr pt ir lir par' rir irr lt) = Inr ra'"
  then show "ra = ra'" by (blast intro: rent_series1_appreciation)
next
  assume "rent_series (buying_vs_renting2 pw pmt fv pp dp rf nk mr pt ir lir par rir irr lt) = Inr rb
        \<and> rent_series (buying_vs_renting2 pw pmt fv pp dp rf' nk' mr pt ir lir par' rir irr lt) = Inr rb'"
  then show "rb = rb'" by (blast intro: rent_series2_appreciation)
next
  assume "rent_series (buying_vs_renting3 pw pmt fv pp dp rf nk mr pt ir lir par rir irr lt) = Inr rc
        \<and> rent_series (buying_vs_renting3 pw pmt fv pp dp rf' nk' mr pt ir lir par' rir irr lt) = Inr rc'"
  then show "rc = rc'" by (blast intro: rent_series3_appreciation)
qed

theorem rent_side_noninterference_witness:
  "rent_series1 (buying_vs_renting (\<lambda>x n. Inr (x powi n)) npf_pmt npf_fv 400000 100000 20000 (1 / 10) (15 / 1000) 1200 1000 (4 / 100) (1 / 100) (2 / 1000) (4 / 100) 1) =
       rent_series1 (buying_vs_renting (\<lambda>x n. Inr (x powi n)) npf_pmt npf_fv 400000 100000 0 (5 / 100) (15 / 1000) 1200 1000 (4 / 100) (1 / 100) (2 / 1000) (4 / 100) 1)
   \<and> rent_series (buying_vs_renting2 (\<lambda>x n. Inr (x powi n)) npf_pmt npf_fv 400000 100000 20000 (1 / 10) (15 / 1000) 1200 1000 (4 / 100) (1 / 100) (2 / 1000) (4 / 100) 1) =
       rent_series (buying_vs_renting2 (\<lambda>x n. Inr (x powi n)) npf_pmt npf_fv 400000 100000 0 (5 / 100) (15 / 1000) 1200 1000 (4 / 100) (1 / 100) (2 / 1000) (4 / 100) 1)
   \<and> rent_series (buying_vs_renting3 (\<lambda>x n. Inr (x powi n)) npf_pmt npf_fv 400000 100000 20000 (1 / 10) (15 / 1000) 1200 1000 (4 / 100) (1 / 100) (2 / 1000) (4 / 100) 1) =
       rent_series (buying_vs_renting3 (\<lambda>x n. Inr (x powi n)) npf_pmt npf_fv 400000 100000 0 (5 / 100) (15 / 1000) 1200 1000 (4 / 100) (1 / 100) (2 / 1000) (4 / 100) 1)
   \<and> rent_series1 (buying_vs_renting (\<lambda>x n. Inr (x powi n)) npf_pmt npf_fv 400000 100000 20000 (1 / 10) (15 / 1000) 1200 1000 (4 / 100) (1 / 100) (2 / 1000) (4 / 100) 1) =
       Inr (fst (snd (buying_vs_renting_loop npf_pmt npf_fv 400000 100000 20000 (1 / 10) (15 / 1000) 1200 1000 (4 / 100) (1 / 100) (2 / 1000) (4 / 100) 1 12)))
   \<and> rent_series1 (buying_vs_renting (\<lambda>x n. Inr (x powi n)) npf_pmt npf_fv 400000 100000 0 (5 / 100) (15 / 1000) 1200 1000 (4 / 100) (3 / 100) (2 / 1000) (4 / 100) 1) =
       Inr (fst (snd (buying_vs_renting_loop npf_pmt npf_fv 400000 100000 0 (5 / 100) (15 / 1000) 1200 1000 (4 / 100) (3 / 100) (2 / 1000) (4 / 100) 1 12)))
   \<and> fst (snd (buying_vs_renting_loop npf_pmt npf_fv 400000 100000 20000 (1 / 10) (15 / 1000) 1200 1000 (4 / 100) (1 / 100) (2 / 1000) (4 / 100) 1 12)) =
       fst (snd (buying_vs_renting_loop npf_pmt npf_fv 400000 100000 0 (5 / 100) (15 / 1000) 1200 1000 (4 / 100) (3 / 100) (2 / 1000) (4 / 100) 1 12))
   \<and> rent_series (buying_vs_renting2 (\<lambda>x n. Inr (x powi n)) npf_pmt npf_fv 400000 100000 20000 (1 / 10) (15 / 1000) 1200 1000 (4 / 100) (1 / 100) (2 / 1000) (4 / 100) 1) =
       Inr (fst (snd (buying_vs_renting2_loop npf_pmt npf_fv 400000 100000 20000 (1 / 10) (15 / 1000) 1200 1000 (4 / 100) (1 / 100) (2 / 1000) (4 / 100) 1 12)))
   \<and> rent_series (buying_vs_renting2 (\<lambda>x n. Inr (x powi n)) npf_pmt npf_fv 400000 100000 0 (5 / 100) (15 / 1000) 1200 1000 (4 / 100) (3 / 100) (2 / 1000) (4 / 100) 1) =
       Inr (fst (snd (buying_vs_renting2_loop npf_pmt npf_fv 400000 100000 0 (5 / 100) (15 / 1000) 1200 1000 (4 / 100) (3 / 100) (2 / 1000) (4 / 100) 1 12)))
   \<and> fst (snd (buying_vs_renting2_loop npf_pmt npf_fv 400000 100000 20000 (1 / 10) (15 / 1000) 1200 1000 (4 / 100) (1 / 100) (2 / 1000) (4 / 100) 1 12)) =
       fst (snd (buying_vs_renting2_loop npf_pmt npf_fv 400000 100000 0 (5 / 100) (15 / 1000) 1200 1000 (4 / 100) (3 / 100) (2 / 1000) (4 / 100) 1 12))
   \<and> rent_series (buying_vs_renting3 (\<lambda>x n. Inr (x powi n)) npf_pmt npf_fv 400000 100000 20000 (1 / 10) (15 / 1000) 1200 1000 (4 / 100) (1 / 100) (2 / 1000) (4 / 100) 1) =
       Inr (fst (snd (buying_vs_renting3_loop npf_pmt npf_fv 400000 100000 20000 (1 / 10) (15 / 1000) 1200 1000 (4 / 100) (1 / 100) (2 / 1000) (4 / 100) 1 12)))
   \<and> rent_series (buying_vs_renting3 (\<lambda>x n. Inr (x powi n)) npf_pmt npf_fv 400000 100000 0 (5 / 100) (15 / 1000) 1200 1000 (4 / 100) (3 / 100) (2 / 1000) (4 / 100) 1) =
       Inr (fst (snd (buying_vs_renting3_loop npf_pmt npf_fv 400000 100000 0 (5 / 100) (15 / 1000) 1200 1000 (4 / 100) (3 / 100) (2 / 1000) (4 / 100) 1 12)))
   \<and> fst (snd (buying_vs_renting3_loop npf_pmt npf_fv 400000 100000 20000 (1 / 10) (15 / 1000) 1200 1000 (4 / 100) (1 / 100) (2 / 1000) (4 / 100) 1 12)) =
       fst (snd (buying_vs_renting3_loop npf_pmt npf_fv 400000 100000 0 (5 / 100) (15 / 1000) 1200 1000 (4 / 100) (3 / 100) (2 / 1000) (4 / 100) 1 12))"
proof -
  have a1: "rent_series1 (buying_vs_renting (\<lambda>x n. Inr (x powi n)) npf_pmt npf_fv 400000 100000 20000 (1 / 10) (15 / 1000) 1200 1000 (4 / 100) (1 / 100) (2 / 1000) (4 / 100) 1) =
       Inr (fst (snd (buying_vs_renting_loop npf_pmt npf_fv 400000 100000 20000 (1 / 10) (15 / 1000) 1200 1000 (4 / 100) (1 / 100) (2 / 1000) (4 / 100) 1 12)))"
    using rent_series1_exact [where pw = "(\<lambda>x n. Inr (x powi n))" and lt = 1 and m = 11] by simp
  have b1: "rent_series1 (buying_vs_renting (\<lambda>x n. Inr (x powi n)) npf_pmt npf_fv 400000 100000 0 (5 / 100) (15 / 1000) 1200 1000 (4 / 100) (3 / 100) (2 / 1000) (4 / 100) 1) =
       Inr (fst (snd (buying_vs_renting_loop npf_pmt npf_fv 400000 100000 0 (5 / 100) (15 / 1000) 1200 1000 (4 / 100) (3 / 100) (2 / 1000) (4 / 100) 1 12)))"
    using rent_series1_exact [where pw = "(\<lambda>x n. Inr (x powi n))" and lt = 1 and m = 11] by simp
  have a2: "rent_series (buying_vs_renting2 (\<lambda>x n. Inr (x powi n)) npf_pmt npf_fv 400000 100000 20000 (1 / 10) (15 / 1000) 1200 1000 (4 / 100) (1 / 100) (2 / 1000) (4 / 100) 1) =
       Inr (fst (snd (buying_vs_renting2_loop npf_pmt npf_fv 400000 100000 20000 (1 / 10) (15 / 1000) 1200 1000 (4 / 100) (1 / 100) (2 / 1000) (4 / 100) 1 12)))"
    using rent_series2_exact [where pw = "(\<lambda>x n. Inr (x powi n))" and lt = 1] by simp
  have b2: "rent_series (buying_vs_renting2 (\<lambda>x n. Inr (x powi n)) npf_pmt npf_fv 400000 100000 0 (5 / 100) (15 / 1000) 1200 1000 (4 / 100) (3 / 100) (2 / 1000) (4 / 100) 1) =
       Inr (fst (snd (buying_vs_renting2_loop npf_pmt npf_fv 400000 100000 0 (5 / 100) (15 / 1000) 1200 1000 (4 / 100) (3 / 100) (2 / 1000) (4 / 100) 1 12)))"
    using rent_series2_exact [where pw = "(\<lambda>x n. Inr (x powi n))" and lt = 1] by simp
  have a3: "rent_series (buying_vs_renting3 (\<lambda>x n. Inr (x powi n)) npf_pmt npf_fv 400000 100000 20000 (1 / 10) (15 / 1000) 1200 1000 (4 / 100) (1 / 100) (2 / 1000) (4 / 100) 1) =
       Inr (fst (snd (buying_vs_renting3_loop npf_pmt npf_fv 400000 100000 20000 (1 / 10) (15 / 1000) 1200 1000 (4 / 100) (1 / 100) (2 / 1000) (4 / 100) 1 12)))"
    using rent_series3_exact [where pw = "(\<lambda>x n. Inr (x powi n))" and lt = 1] by simp
  have b3: "rent_series (buying_vs_renting3 (\<lambda>x n. Inr (x powi n)) npf_pmt npf_fv 400000 100000 0 (5 / 100) (15 / 1000) 1200 1000 (4 / 100) (3 / 100) (2 / 1000) (4 / 100) 1) =
       Inr (fst (snd (buying_vs_renting3_loop npf_pmt npf_fv 400000 100000 0 (5 / 100) (15 / 1000) 1200 1000 (4 / 100) (3 / 100) (2 / 1000) (4 / 100) 1 12)))"
    using rent_series3_exact [where pw = "(\<lambda>x n. Inr (x powi n))" and lt = 1] by simp
  note t = rent_side_noninterference [where pw = "(\<lambda>x n. Inr (x powi n))" and pmt = npf_pmt and fv = npf_fv
      and pp = 400000 and dp = 100000 and rf = 20000 and nk = "1 / 10" and mr = "15 / 1000"
      and pt = 1200 and ir = 1000 and lir = "4 / 100" and par = "1 / 100" and rir = "2 / 1000"
      and irr = "4 / 100" and lt = 1 and rf' = 0 and nk' = "5 / 100" and par' = "3 / 100"
      and ra = "fst (snd (buying_vs_renting_loop npf_pmt npf_fv 400000 100000 20000 (1 / 10) (15 / 1000) 1200 1000 (4 / 100) (1 / 100) (2 / 1000) (4 / 100) 1 12))"
      and ra' = "fst (snd (buying_vs_renting_loop npf_pmt npf_fv 400000 100000 0 (5 / 100) (15 / 1000) 1200 1000 (4 / 100) (3 / 100) (2 / 1000) (4 / 100) 1 12))"
      and rb = "fst (snd (buying_vs_renting2_loop npf_pmt npf_fv 400000 100000 20000 (1 / 10) (15 / 1000) 1200 1000 (4 / 100) (1 / 100) (2 / 1000) (4 / 100) 1 12))"
      and rb' = "fst (snd (buying_vs_renting2_loop npf_pmt npf_fv 400000 100000 0 (5 / 100) (15 / 1000) 1200 1000 (4 / 100) (3 / 100) (2 / 1000) (4 / 100) 1 12))"
      and rc = "fst (snd (buying_vs_renting3_loop npf_pmt npf_fv 400000 100000 20000 (1 / 10) (15 / 1000) 1200 1000 (4 / 100) (1 / 100) (2 / 1000) (4 / 100) 1 12))"
      and rc' = "fst (snd (buying_vs_renting3_loop npf_pmt npf_fv 400000 100000 0 (5 / 100) (15 / 1000) 1200 1000 (4 / 100) (3 / 100) (2 / 1000) (4 / 100) 1 12))"]
  from t a1 b1 a2 b2 a3 b3 show ?thesis by simp
qed

text \<open>
  The claim without that condition fails: with an appreciation rate of 36 the base of the
  power is 4, and in the 513th month of a loan of 43 years \<open>4\<^sup>5\<^sup>1\<^sup>2 = 2\<^sup>1\<^sup>0\<^sup>2\<^sup>4\<close> is out
  of range: model 2 raises, where it returns a series for the rate 0.
\<close>

theorem rent_side_counterexample:
  "rent_series (buying_vs_renting2 py_pow npf_pmt npf_fv 400000 100000 20000 (1 / 10) (15 / 1000) 1200 1000 (4 / 100) 36 0 (4 / 100) 43) \<noteq>
   rent_series (buying_vs_renting2 py_pow npf_pmt npf_fv 400000 100000 20000 (1 / 10) (15 / 1000) 1200 1000 (4 / 100) 0 0 (4 / 100) 43)"
proof -
  have "\<exists>e'. rent_series (buying_vs_renting2 py_pow npf_pmt npf_fv 400000 100000 20000 (1 / 10) (15 / 1000) 1200 1000 (4 / 100) 36 0 (4 / 100) 43) = Inl e'"
    by (rule rent_series2_overflow [where j = 512 and e = OverflowError])
       (simp_all add: py_pow_four)
  moreover have "rent_series (buying_vs_renting2 py_pow npf_pmt npf_fv 400000 100000 20000 (1 / 10) (15 / 1000) 1200 1000 (4 / 100) 0 0 (4 / 100) 43) =
      Inr (fst (snd (buying_vs_renting2_loop npf_pmt npf_fv 400000 100000 20000 (1 / 10) (15 / 1000) 1200 1000 (4 / 100) 0 0 (4 / 100) 43 (43 * 12))))"
    by (rule rent_series2_exact) (simp_all add: py_pow_one)
  ultimately show ?thesis by auto
qed

end
